theory Spec2Isabelle
  imports Complex_Main "HOL-Library.Word" "HOL-Library.Monad_Syntax"
begin

unbundle bit_operations_syntax

section \<open>JavaScript values used by the generator core\<close>

text \<open>
  The library (\<^verbatim>\<open>src/src/seedforge.js\<close>) computes with JavaScript numbers and strings.
  \<^item> A 32-bit integer produced by a bitwise operator, by \<^verbatim>\<open>Math.imul\<close> or stored in a
    \<^verbatim>\<open>Uint32Array\<close> is a \<open>32 word\<close>; \<^verbatim>\<open>x >>> 0\<close> and \<^verbatim>\<open>x | 0\<close> of an integer-valued
    number \<open>x\<close> are \<open>word_of_int x\<close>; \<^verbatim>\<open>>>>\<close> is \<open>drop_bit\<close>, \<^verbatim>\<open><<\<close> is \<open>push_bit\<close>.
  \<^item> A number that the code never wraps (the Mulberry32 state, the SFC32 counter, the LCG
    state and parameters) is an \<open>int\<close>; sums and products that can leave the range in
    which doubles are exact are rounded by \<open>rnd53\<close> (round to nearest, ties to even, 53
    significant bits). In the generators, overflow to infinity (beyond \<open>2^1024\<close>) and
    \<^verbatim>\<open>NaN\<close> are not represented.
  \<^item> The result of \<^verbatim>\<open>int(min, max)\<close> is a \<open>number\<close>: an integer-valued double, an
    infinity or \<^verbatim>\<open>NaN\<close>. Its arithmetic is the double arithmetic of the code, rounding
    and overflow included.
  \<^item> Any other fractional number (a uniform draw, a normal deviate) is a \<open>real\<close>: the
    arithmetic on them is exact, where the double arithmetic of the code rounds.
  \<^item> A string is a list of 8-bit code units (the Latin-1 part of the UTF-16 code units
    that \<^verbatim>\<open>charCodeAt\<close> returns).
\<close>

type_synonym u32 = "32 word"

definition imul :: "u32 \<Rightarrow> u32 \<Rightarrow> u32" where
  "imul a b = a * b"

definition charCodeAt :: "char \<Rightarrow> u32" where
  "charCodeAt ch = word_of_nat (of_char ch)"

function dbl_exp :: "int \<Rightarrow> nat" where
  "dbl_exp n = (if n < 2 ^ 53 then 0 else Suc (dbl_exp (n div 2)))"
  by pat_completeness auto
termination
  by (relation "measure nat") auto

declare dbl_exp.simps [simp del]

definition rnd53 :: "int \<Rightarrow> int" where
  "rnd53 n =
     (let m = \<bar>n\<bar>; e = dbl_exp m; q = m div 2 ^ e; r = m mod 2 ^ e
      in if e = 0 then n
         else sgn n * ((if 2 ^ e < 2 * r \<or> (2 * r = 2 ^ e \<and> odd q) then q + 1 else q) * 2 ^ e))"

text \<open>
  An integer-valued result of double arithmetic, with overflow: the largest finite double
  is \<open>2^1024 - 2^971\<close>, and a value that is half a unit in the last place (\<open>2^970\<close>) or
  more beyond it rounds to an infinity.
\<close>

datatype number = Num int | PosInfinity | NegInfinity | NotANumber

definition dbl :: "int \<Rightarrow> number" where
  "dbl x =
     (if 2 ^ 1024 - 2 ^ 970 \<le> \<bar>x\<bar> then (if 0 < x then PosInfinity else NegInfinity)
      else Num (rnd53 x))"

text \<open>
  The remainder operator \<^verbatim>\<open>%\<close> for a divisor other than 0: the result has the sign of
  the dividend. (\<^verbatim>\<open>x % 0\<close> is \<^verbatim>\<open>NaN\<close>, which an \<open>int\<close> cannot hold; here it is \<open>x\<close>.)
\<close>

definition js_rem :: "int \<Rightarrow> int \<Rightarrow> int" where
  "js_rem x m = sgn x * (\<bar>x\<bar> mod \<bar>m\<bar>)"

function nat_digits :: "nat \<Rightarrow> string" where
  "nat_digits n =
     (if n < 10 then [char_of (48 + n)]
      else nat_digits (n div 10) @ [char_of (48 + n mod 10)])"
  by pat_completeness auto
termination
  by (relation "measure (\<lambda>n. n)") auto

declare nat_digits.simps [simp del]

text \<open>
  \<^verbatim>\<open>String(n)\<close> of an integer of magnitude at most \<open>2^53\<close>: its decimal digits. (For a
  larger integer-valued double JavaScript prints the shortest digits that read back as
  the same double, and from \<open>10^21\<close> on an exponent; this function prints all the digits
  throughout. The clock readings and the 32-bit draws that the library itself converts
  are far below \<open>2^53\<close>.)
\<close>

definition String_num :: "int \<Rightarrow> string" where
  "String_num n = (if n < 0 then CHR ''-'' # nat_digits (nat (- n)) else nat_digits (nat n))"

definition lower_char :: "char \<Rightarrow> char" where
  "lower_char ch =
     (let n = (of_char ch :: nat)
      in if (65 \<le> n \<and> n \<le> 90) \<or> (192 \<le> n \<and> n \<le> 222 \<and> n \<noteq> 215)
         then char_of (n + 32) else ch)"

definition toLowerCase :: "string \<Rightarrow> string" where
  "toLowerCase s = map lower_char s"

text \<open>A seed is a string or an integer-valued number.\<close>

datatype seed = SeedStr string | SeedNum int

definition seed_string :: "seed \<Rightarrow> string" where
  "seed_string sd = (case sd of SeedStr s \<Rightarrow> s | SeedNum n \<Rightarrow> String_num n)"

section \<open>Seeding utilities\<close>

definition stringToSeed :: "string \<Rightarrow> u32" where
  "stringToSeed str = foldl (\<lambda>hash ch. (push_bit 5 hash - hash) + charCodeAt ch) 0 str"

fun cyrb128_mix :: "u32 \<times> u32 \<times> u32 \<times> u32 \<Rightarrow> char \<Rightarrow> u32 \<times> u32 \<times> u32 \<times> u32" where
  "cyrb128_mix (h1, h2, h3, h4) ch =
     (let k = charCodeAt ch;
          h1' = h2 XOR imul (h1 XOR k) 597399067;
          h2' = h3 XOR imul (h2 XOR k) 2869860233;
          h3' = h4 XOR imul (h3 XOR k) 951274213;
          h4' = h1' XOR imul (h4 XOR k) 2716044179
      in (h1', h2', h3', h4'))"

fun cyrb128_final :: "u32 \<times> u32 \<times> u32 \<times> u32 \<Rightarrow> u32 \<times> u32 \<times> u32 \<times> u32" where
  "cyrb128_final (h1, h2, h3, h4) =
     (let h1a = imul (h3 XOR drop_bit 18 h1) 597399067;
          h2a = imul (h4 XOR drop_bit 22 h2) 2869860233;
          h3a = imul (h1a XOR drop_bit 17 h3) 951274213;
          h4a = imul (h2a XOR drop_bit 19 h4) 2716044179;
          h1b = h1a XOR (h2a XOR h3a XOR h4a);
          h2b = h2a XOR h1b;
          h3b = h3a XOR h1b;
          h4b = h4a XOR h1b
      in (h1b, h2b, h3b, h4b))"

definition cyrb128 :: "string \<Rightarrow> u32 \<times> u32 \<times> u32 \<times> u32" where
  "cyrb128 str =
     cyrb128_final (foldl cyrb128_mix (1779033703, 3144134277, 1013904242, 2773480762) str)"

section \<open>Bit generators\<close>

text \<open>
  One record per class, holding the fields of the class. The field \<^verbatim>\<open>name\<close> is constant
  in each class and is the function \<open>gen_name\<close> below. The \<^verbatim>\<open>Uint32Array\<close> \<open>s\<close> of the
  two shift-register engines always has four elements. The objects that \<^verbatim>\<open>getState\<close>
  returns have the same fields, so the same records model them.
\<close>

definition numSeed :: "seed \<Rightarrow> u32" where
  "numSeed sd = (case sd of SeedStr s \<Rightarrow> stringToSeed s | SeedNum n \<Rightarrow> word_of_int n)"

subsection \<open>Mulberry32\<close>

record mulberry32_obj =
  mb_state :: int
  mb_seed :: u32

definition Mulberry32_new :: "seed \<Rightarrow> mulberry32_obj" where
  "Mulberry32_new sd = \<lparr>mb_state = uint (numSeed sd), mb_seed = numSeed sd\<rparr>"

definition Mulberry32_nextInt :: "mulberry32_obj \<Rightarrow> mulberry32_obj \<times> u32" where
  "Mulberry32_nextInt this =
     (let state' = rnd53 (mb_state this + 0x6D2B79F5);
          t = (word_of_int state' :: u32);
          t = imul (t XOR drop_bit 15 t) (t OR 1);
          t = t XOR (t + imul (t XOR drop_bit 7 t) (t OR 61))
      in (this\<lparr>mb_state := state'\<rparr>, t XOR drop_bit 14 t))"

definition Mulberry32_reset :: "mulberry32_obj \<Rightarrow> mulberry32_obj" where
  "Mulberry32_reset this = this\<lparr>mb_state := uint (mb_seed this)\<rparr>"

definition Mulberry32_clone :: "mulberry32_obj \<Rightarrow> mulberry32_obj" where
  "Mulberry32_clone this =
     (Mulberry32_new (SeedNum (uint (mb_seed this))))\<lparr>mb_state := mb_state this\<rparr>"

subsection \<open>Xoshiro128** and Xorshift128\<close>

record xorshift_obj =
  xo_s :: "u32 \<times> u32 \<times> u32 \<times> u32"
  xo_originalSeed :: seed

definition rotl :: "u32 \<Rightarrow> nat \<Rightarrow> u32" where
  "rotl x k = push_bit k x OR drop_bit (32 - k) x"

definition Xoshiro128SS_new :: "seed \<Rightarrow> xorshift_obj" where
  "Xoshiro128SS_new sd = \<lparr>xo_s = cyrb128 (seed_string sd), xo_originalSeed = sd\<rparr>"

definition Xoshiro128SS_nextInt :: "xorshift_obj \<Rightarrow> xorshift_obj \<times> u32" where
  "Xoshiro128SS_nextInt this =
     (case xo_s this of (s0, s1, s2, s3) \<Rightarrow>
       (let result = imul (rotl (imul s1 5) 7) 9;
            t = push_bit 9 s1;
            s2 = s2 XOR s0;
            s3 = s3 XOR s1;
            s1 = s1 XOR s2;
            s0 = s0 XOR s3;
            s2 = s2 XOR t;
            s3 = rotl s3 11
        in (this\<lparr>xo_s := (s0, s1, s2, s3)\<rparr>, result)))"

definition Xoshiro128SS_reset :: "xorshift_obj \<Rightarrow> xorshift_obj" where
  "Xoshiro128SS_reset this = this\<lparr>xo_s := cyrb128 (seed_string (xo_originalSeed this))\<rparr>"

definition Xoshiro128SS_clone :: "xorshift_obj \<Rightarrow> xorshift_obj" where
  "Xoshiro128SS_clone this = (Xoshiro128SS_new (xo_originalSeed this))\<lparr>xo_s := xo_s this\<rparr>"

definition Xorshift128Plus_new :: "seed \<Rightarrow> xorshift_obj" where
  "Xorshift128Plus_new sd = \<lparr>xo_s = cyrb128 (seed_string sd), xo_originalSeed = sd\<rparr>"

definition Xorshift128Plus_nextInt :: "xorshift_obj \<Rightarrow> xorshift_obj \<times> u32" where
  "Xorshift128Plus_nextInt this =
     (case xo_s this of (s0, s1, s2, s3) \<Rightarrow>
       (let t = s3;
            s = s0;
            t = t XOR push_bit 11 t;
            t = t XOR drop_bit 8 t;
            s0' = t XOR s XOR drop_bit 19 s
        in (this\<lparr>xo_s := (s0', s, s1, s2)\<rparr>, s0')))"

definition Xorshift128Plus_reset :: "xorshift_obj \<Rightarrow> xorshift_obj" where
  "Xorshift128Plus_reset this = this\<lparr>xo_s := cyrb128 (seed_string (xo_originalSeed this))\<rparr>"

definition Xorshift128Plus_clone :: "xorshift_obj \<Rightarrow> xorshift_obj" where
  "Xorshift128Plus_clone this =
     (Xorshift128Plus_new (xo_originalSeed this))\<lparr>xo_s := xo_s this\<rparr>"

subsection \<open>PCG32\<close>

record pcg32_obj =
  stateHi :: u32
  stateLo :: u32
  incHi :: u32
  incLo :: u32
  pcg_originalSeed :: seed
  originalSequence :: int

definition PCG32_add64 :: "u32 \<Rightarrow> u32 \<Rightarrow> pcg32_obj \<Rightarrow> pcg32_obj" where
  "PCG32_add64 lo hi this =
     (let newLo = stateLo this + lo;
          carry = (if newLo < stateLo this then 1 else 0)
      in this\<lparr>stateLo := newLo, stateHi := stateHi this + hi + carry\<rparr>)"

definition PCG32_multiply :: "pcg32_obj \<Rightarrow> pcg32_obj" where
  "PCG32_multiply this =
     (let multHi = (0x5851F42D :: int);
          multLo = (0x4C957F2D :: int);
          a = uint (drop_bit 16 (stateLo this));
          b = uint (stateLo this AND 0xFFFF);
          c = uint (drop_bit 16 (word_of_int multLo :: u32));
          d = uint ((word_of_int multLo :: u32) AND 0xFFFF);
          low = b * d;
          mid1 = a * d;
          mid2 = b * c;
          high = a * c;
          mid1 = mid1 + uint (drop_bit 16 (word_of_int low :: u32));
          mid1 = mid1 + mid2;
          high = (if mid1 < mid2 then high + 0x10000 else high);
          newLo = ((word_of_int low :: u32) AND 0xFFFF)
                    OR push_bit 16 ((word_of_int mid1 :: u32) AND 0xFFFF);
          newHi = high + uint (drop_bit 16 (word_of_int mid1 :: u32));
          crossHi = (word_of_int
                      (rnd53 (rnd53 (uint (stateLo this) * multHi)
                                + rnd53 (uint (stateHi this) * multLo))) :: u32)
      in this\<lparr>stateLo := newLo, stateHi := word_of_int (newHi + uint crossHi)\<rparr>)"

definition PCG32_nextInt :: "pcg32_obj \<Rightarrow> pcg32_obj \<times> u32" where
  "PCG32_nextInt this =
     (let oldHi = stateHi this;
          oldLo = stateLo this;
          this' = PCG32_multiply this;
          this' = PCG32_add64 (incLo this') (incHi this') this';
          xorshifted = drop_bit 27 (drop_bit 18 oldHi XOR oldHi) XOR drop_bit 27 oldLo;
          rot = drop_bit 27 oldHi
      in (this', drop_bit (unat rot) xorshifted OR push_bit (unat ((- rot) AND 31)) xorshifted))"

definition PCG32_seed_state :: "pcg32_obj \<Rightarrow> pcg32_obj" where
  "PCG32_seed_state this =
     (let this = this\<lparr>stateHi := 0, stateLo := 0, incHi := 0,
                       incLo := push_bit 1 (word_of_int (originalSequence this)) OR 1\<rparr>;
          this = fst (PCG32_nextInt this);
          this = PCG32_add64 (numSeed (pcg_originalSeed this)) 0 this
      in fst (PCG32_nextInt this))"

definition PCG32_new :: "seed \<Rightarrow> int \<Rightarrow> pcg32_obj" where
  "PCG32_new sd sequence =
     PCG32_seed_state \<lparr>stateHi = 0, stateLo = 0, incHi = 0, incLo = 0,
                       pcg_originalSeed = sd, originalSequence = sequence\<rparr>"

definition PCG32_reset :: "pcg32_obj \<Rightarrow> pcg32_obj" where
  "PCG32_reset this = PCG32_seed_state this"

definition PCG32_clone :: "pcg32_obj \<Rightarrow> pcg32_obj" where
  "PCG32_clone this =
     (PCG32_new (pcg_originalSeed this) (originalSequence this))
       \<lparr>stateHi := stateHi this, stateLo := stateLo this,
        incHi := incHi this, incLo := incLo this\<rparr>"

subsection \<open>SFC32\<close>

record sfc32_obj =
  sfc_a :: int
  sfc_b :: u32
  sfc_c :: u32
  counter :: int
  sfc_originalSeed :: seed

definition SFC32_new :: "seed \<Rightarrow> sfc32_obj" where
  "SFC32_new sd =
     (case cyrb128 (seed_string sd) of (a, b, c, cnt) \<Rightarrow>
        \<lparr>sfc_a = uint a, sfc_b = b, sfc_c = c, counter = uint cnt, sfc_originalSeed = sd\<rparr>)"

definition SFC32_nextInt :: "sfc32_obj \<Rightarrow> sfc32_obj \<times> u32" where
  "SFC32_nextInt this =
     (let t = (word_of_int (rnd53 (rnd53 (sfc_a this + uint (sfc_b this)) + counter this)) :: u32);
          this = this\<lparr>counter := rnd53 (counter this + 1)\<rparr>;
          this = this\<lparr>sfc_a := sint (sfc_b this XOR drop_bit 9 (sfc_b this))\<rparr>;
          this = this\<lparr>sfc_b := sfc_c this + push_bit 3 (sfc_c this)\<rparr>;
          this = this\<lparr>sfc_c := push_bit 21 (sfc_c this) OR drop_bit 11 (sfc_c this)\<rparr>;
          this = this\<lparr>sfc_c := sfc_c this + t\<rparr>
      in (this, t))"

definition SFC32_reset :: "sfc32_obj \<Rightarrow> sfc32_obj" where
  "SFC32_reset this =
     (case cyrb128 (seed_string (sfc_originalSeed this)) of (a, b, c, cnt) \<Rightarrow>
        this\<lparr>sfc_a := uint a, sfc_b := b, sfc_c := c, counter := uint cnt\<rparr>)"

definition SFC32_clone :: "sfc32_obj \<Rightarrow> sfc32_obj" where
  "SFC32_clone this =
     (SFC32_new (sfc_originalSeed this))
       \<lparr>sfc_a := sfc_a this, sfc_b := sfc_b this, sfc_c := sfc_c this, counter := counter this\<rparr>"

subsection \<open>LCG\<close>

record lcg_obj =
  lcg_state :: int
  lcg_seed :: u32
  lcg_a :: int
  lcg_c :: int
  lcg_m :: int

definition LCG_new :: "seed \<Rightarrow> int \<Rightarrow> int \<Rightarrow> int \<Rightarrow> lcg_obj" where
  "LCG_new sd a c m =
     \<lparr>lcg_state = uint (numSeed sd), lcg_seed = numSeed sd, lcg_a = a, lcg_c = c, lcg_m = m\<rparr>"

text \<open>
  For \<open>m = 0\<close> the JavaScript remainder is \<^verbatim>\<open>NaN\<close>, which an \<open>int\<close> cannot hold; the Facade
  constructs every LCG with \<open>m = 2^32\<close>.
\<close>

definition LCG_nextInt :: "lcg_obj \<Rightarrow> lcg_obj \<times> u32" where
  "LCG_nextInt this =
     (let this = this\<lparr>lcg_state :=
                   js_rem (rnd53 (rnd53 (lcg_a this * lcg_state this) + lcg_c this)) (lcg_m this)\<rparr>
      in (this, word_of_int (lcg_state this)))"

definition LCG_next :: "lcg_obj \<Rightarrow> lcg_obj \<times> real" where
  "LCG_next this =
     (case LCG_nextInt this of (this', r) \<Rightarrow>
        (this', real_of_int (uint r) / real_of_int (lcg_m this')))"

definition LCG_reset :: "lcg_obj \<Rightarrow> lcg_obj" where
  "LCG_reset this = this\<lparr>lcg_state := uint (lcg_seed this)\<rparr>"

definition LCG_clone :: "lcg_obj \<Rightarrow> lcg_obj" where
  "LCG_clone this =
     (LCG_new (SeedNum (uint (lcg_seed this))) (lcg_a this) (lcg_c this) (lcg_m this))
       \<lparr>lcg_state := lcg_state this\<rparr>"

subsection \<open>The common interface\<close>

datatype generator =
    Mulberry32 mulberry32_obj
  | Xoshiro128SS xorshift_obj
  | Xorshift128Plus xorshift_obj
  | PCG32 pcg32_obj
  | SFC32 sfc32_obj
  | LCG lcg_obj

fun gen_name :: "generator \<Rightarrow> string" where
  "gen_name (Mulberry32 _) = ''mulberry32''"
| "gen_name (Xoshiro128SS _) = ''xoshiro128**''"
| "gen_name (Xorshift128Plus _) = ''xorshift128+''"
| "gen_name (PCG32 _) = ''pcg32''"
| "gen_name (SFC32 _) = ''sfc32''"
| "gen_name (LCG _) = ''lcg''"

fun gen_nextInt :: "generator \<Rightarrow> generator \<times> u32" where
  "gen_nextInt (Mulberry32 this) = map_prod Mulberry32 id (Mulberry32_nextInt this)"
| "gen_nextInt (Xoshiro128SS this) = map_prod Xoshiro128SS id (Xoshiro128SS_nextInt this)"
| "gen_nextInt (Xorshift128Plus this) = map_prod Xorshift128Plus id (Xorshift128Plus_nextInt this)"
| "gen_nextInt (PCG32 this) = map_prod PCG32 id (PCG32_nextInt this)"
| "gen_nextInt (SFC32 this) = map_prod SFC32 id (SFC32_nextInt this)"
| "gen_nextInt (LCG this) = map_prod LCG id (LCG_nextInt this)"

text \<open>
  \<^verbatim>\<open>next()\<close> divides the 32-bit output by \<open>2^32\<close> (Mulberry32 and Xorshift128 repeat the
  body of \<^verbatim>\<open>nextInt\<close> before dividing); the LCG divides by its modulus.
\<close>

definition u32_to_unit :: "u32 \<Rightarrow> real" where
  "u32_to_unit r = real_of_int (uint r) / 4294967296"

fun gen_next :: "generator \<Rightarrow> generator \<times> real" where
  "gen_next (LCG this) = map_prod LCG id (LCG_next this)"
| "gen_next g = map_prod id u32_to_unit (gen_nextInt g)"

fun gen_reset :: "generator \<Rightarrow> generator" where
  "gen_reset (Mulberry32 this) = Mulberry32 (Mulberry32_reset this)"
| "gen_reset (Xoshiro128SS this) = Xoshiro128SS (Xoshiro128SS_reset this)"
| "gen_reset (Xorshift128Plus this) = Xorshift128Plus (Xorshift128Plus_reset this)"
| "gen_reset (PCG32 this) = PCG32 (PCG32_reset this)"
| "gen_reset (SFC32 this) = SFC32 (SFC32_reset this)"
| "gen_reset (LCG this) = LCG (LCG_reset this)"

fun gen_clone :: "generator \<Rightarrow> generator" where
  "gen_clone (Mulberry32 this) = Mulberry32 (Mulberry32_clone this)"
| "gen_clone (Xoshiro128SS this) = Xoshiro128SS (Xoshiro128SS_clone this)"
| "gen_clone (Xorshift128Plus this) = Xorshift128Plus (Xorshift128Plus_clone this)"
| "gen_clone (PCG32 this) = PCG32 (PCG32_clone this)"
| "gen_clone (SFC32 this) = SFC32 (SFC32_clone this)"
| "gen_clone (LCG this) = LCG (LCG_clone this)"

section \<open>The generator Facade (class PRNG)\<close>

text \<open>
  The three errors that the library throws itself, and the \<^verbatim>\<open>TypeError\<close> that JavaScript
  throws when a property of \<^verbatim>\<open>undefined\<close> is read.
\<close>

datatype error =
    Unknown_algorithm string
  | Items_and_weights_must_have_same_length
  | Alpha_and_beta_must_be_positive
  | TypeError

record prng =
  generator :: generator
  spareNormal :: "real option"
  hasSpareNormal :: bool

text \<open>
  The \<^verbatim>\<open>switch\<close> of \<^verbatim>\<open>setSeed\<close>. Every class constructor has the default parameter
  \<^verbatim>\<open>seed = Date.now()\<close>: an undefined seed (\<open>None\<close>) is replaced by the clock reading
  \<open>now\<close>. The Facade passes no further argument, so PCG32 gets \<open>sequence = 1\<close> and the
  LCG its default parameters.
\<close>

definition select_generator :: "int \<Rightarrow> seed option \<Rightarrow> string \<Rightarrow> error + generator" where
  "select_generator now seed algorithm =
     (let sd = (case seed of None \<Rightarrow> SeedNum now | Some s \<Rightarrow> s);
          key = toLowerCase algorithm
      in if key = ''mulberry32'' \<or> key = ''mulberry'' then Inr (Mulberry32 (Mulberry32_new sd))
         else if key = ''xoshiro128'' \<or> key = ''xoshiro128**'' \<or> key = ''xoshiro''
           then Inr (Xoshiro128SS (Xoshiro128SS_new sd))
         else if key = ''xorshift128'' \<or> key = ''xorshift128+'' \<or> key = ''xorshift''
           then Inr (Xorshift128Plus (Xorshift128Plus_new sd))
         else if key = ''pcg32'' \<or> key = ''pcg'' then Inr (PCG32 (PCG32_new sd 1))
         else if key = ''sfc32'' \<or> key = ''sfc'' then Inr (SFC32 (SFC32_new sd))
         else if key = ''lcg'' then Inr (LCG (LCG_new sd 1664525 1013904223 4294967296))
         else Inl (Unknown_algorithm algorithm))"

text \<open>
  \<^verbatim>\<open>setSeed(seed, algorithm = this.generator?.name || 'xoshiro128')\<close> on an existing
  Facade. The result is the Facade after the call and the error thrown, if any.
\<close>

definition PRNG_setSeed :: "int \<Rightarrow> prng \<Rightarrow> seed option \<Rightarrow> string option \<Rightarrow> prng \<times> error option" where
  "PRNG_setSeed now this seed algorithm =
     (case select_generator now seed
             (case algorithm of None \<Rightarrow> gen_name (generator this) | Some a \<Rightarrow> a) of
        Inl e \<Rightarrow> (this, Some e)
      | Inr g \<Rightarrow> (\<lparr>generator = g, spareNormal = None, hasSpareNormal = False\<rparr>, None))"

text \<open>\<^verbatim>\<open>new PRNG(seed = Date.now(), algorithm = 'xoshiro128')\<close>.\<close>

definition PRNG_new :: "int \<Rightarrow> seed option \<Rightarrow> string option \<Rightarrow> error + prng" where
  "PRNG_new now seed algorithm =
     (case select_generator now
             (Some (case seed of None \<Rightarrow> SeedNum now | Some s \<Rightarrow> s))
             (case algorithm of None \<Rightarrow> ''xoshiro128'' | Some a \<Rightarrow> a) of
        Inl e \<Rightarrow> Inl e
      | Inr g \<Rightarrow> Inr \<lparr>generator = g, spareNormal = None, hasSpareNormal = False\<rparr>)"

subsection \<open>Basic generation\<close>

definition PRNG_random :: "prng \<Rightarrow> prng \<times> real" where
  "PRNG_random this = (case gen_next (generator this) of (g, r) \<Rightarrow> (this\<lparr>generator := g\<rparr>, r))"

definition PRNG_randomInt :: "prng \<Rightarrow> prng \<times> u32" where
  "PRNG_randomInt this =
     (case gen_nextInt (generator this) of (g, r) \<Rightarrow> (this\<lparr>generator := g\<rparr>, r))"

definition PRNG_float :: "prng \<Rightarrow> real \<Rightarrow> real \<Rightarrow> prng \<times> real" where
  "PRNG_float this minv maxv =
     (case PRNG_random this of (this', r) \<Rightarrow> (this', minv + r * (maxv - minv)))"

text \<open>
  \<^verbatim>\<open>int(min, max)\<close> in the double arithmetic of the code. The arguments are finite
  doubles, so \<^verbatim>\<open>Math.ceil(min)\<close> and \<^verbatim>\<open>Math.floor(max)\<close> are integers that doubles hold.
  \<^item> \<open>number_plus x i\<close> is \<^verbatim>\<open>x + i\<close> for an integer \<open>i\<close>.
  \<^item> \<open>floor_times r x\<close> is \<^verbatim>\<open>Math.floor(r * x)\<close> for a draw \<open>r\<close>. A draw is \<open>k / 2^32\<close> for a
    32-bit integer \<open>k\<close> (the LCG divides by its modulus, which is \<open>2^32\<close> unless a payload
    of \<^verbatim>\<open>setState\<close> changed it), and scaling by a power of two is exact: the double
    product of \<open>k / 2^32\<close> and an integer \<open>n\<close> is \<open>rnd53 (k * n) / 2^32\<close>. An infinity times
    0 is \<^verbatim>\<open>NaN\<close>.
\<close>

fun number_plus :: "number \<Rightarrow> int \<Rightarrow> number" where
  "number_plus (Num x) i = dbl (x + i)"
| "number_plus x i = x"

fun floor_times :: "real \<Rightarrow> number \<Rightarrow> number" where
  "floor_times r (Num n) = Num (rnd53 (\<lfloor>r * 4294967296\<rfloor> * n) div 4294967296)"
| "floor_times r PosInfinity =
     (if r = 0 then NotANumber else if 0 < r then PosInfinity else NegInfinity)"
| "floor_times r NegInfinity =
     (if r = 0 then NotANumber else if 0 < r then NegInfinity else PosInfinity)"
| "floor_times r NotANumber = NotANumber"

definition PRNG_int :: "prng \<Rightarrow> real \<Rightarrow> real \<Rightarrow> prng \<times> number" where
  "PRNG_int this minv maxv =
     (let minv = \<lceil>minv\<rceil>;
          maxv = \<lfloor>maxv\<rfloor>
      in case PRNG_random this of (this', r) \<Rightarrow>
           (this', number_plus (floor_times r (number_plus (dbl (maxv - minv)) 1)) minv))"

definition PRNG_bool :: "prng \<Rightarrow> real \<Rightarrow> prng \<times> bool" where
  "PRNG_bool this probability =
     (case PRNG_random this of (this', r) \<Rightarrow> (this', r < probability))"

definition PRNG_sign :: "prng \<Rightarrow> real \<Rightarrow> prng \<times> int" where
  "PRNG_sign this probability =
     (case PRNG_bool this probability of (this', b) \<Rightarrow> (this', if b then 1 else - 1))"

subsection \<open>Distributions\<close>

text \<open>
  The rejection loop of \<^verbatim>\<open>normal\<close> has no iteration bound: it is a partial function, and
  \<open>None\<close> is the run that never leaves the loop.
\<close>

partial_function (option) normal_loop :: "prng \<Rightarrow> (prng \<times> real \<times> real \<times> real) option" where
  "normal_loop this =
     (case PRNG_random this of (this1, r1) \<Rightarrow>
      case PRNG_random this1 of (this2, r2) \<Rightarrow>
        (let u = r1 * 2 - 1;
             v = r2 * 2 - 1;
             s = u * u + v * v
         in if s \<ge> 1 \<or> s = 0 then normal_loop this2 else Some (this2, u, v, s)))"

text \<open>A spare that is \<^verbatim>\<open>null\<close> counts as 0 in the product, as in JavaScript.\<close>

definition PRNG_normal :: "prng \<Rightarrow> real \<Rightarrow> real \<Rightarrow> (prng \<times> real) option" where
  "PRNG_normal this mean stdDev =
     (if hasSpareNormal this
      then Some (this\<lparr>hasSpareNormal := False\<rparr>,
                 (case spareNormal this of None \<Rightarrow> 0 | Some x \<Rightarrow> x) * stdDev + mean)
      else Option.bind (normal_loop this) (\<lambda>(this', u, v, s).
             (let mul = sqrt (- 2 * ln s / s)
              in Some (this'\<lparr>spareNormal := Some (v * mul), hasSpareNormal := True\<rparr>,
                       u * mul * stdDev + mean))))"

definition PRNG_exponential :: "prng \<Rightarrow> real \<Rightarrow> prng \<times> real" where
  "PRNG_exponential this lambda =
     (case PRNG_random this of (this', r) \<Rightarrow> (this', - ln (1 - r) / lambda))"

partial_function (option) gamma_normal :: "real \<Rightarrow> prng \<Rightarrow> (prng \<times> real \<times> real) option" where
  "gamma_normal c this =
     Option.bind (PRNG_normal this 0 1) (\<lambda>(this', x).
       (let v = 1 + c * x
        in if v \<le> 0 then gamma_normal c this' else Some (this', x, v)))"

partial_function (option) gamma_loop :: "real \<Rightarrow> real \<Rightarrow> real \<Rightarrow> prng \<Rightarrow> (prng \<times> real) option" where
  "gamma_loop d c scale this =
     Option.bind (gamma_normal c this) (\<lambda>(this1, x, v).
       (let v = v * v * v
        in case PRNG_random this1 of (this2, u) \<Rightarrow>
             if u < 1 - 0.0331 * (x * x) * (x * x) then Some (this2, d * v * scale)
             else if ln u < 0.5 * x * x + d * (1 - v + ln v) then Some (this2, d * v * scale)
             else gamma_loop d c scale this2))"

partial_function (option) PRNG_gamma :: "prng \<Rightarrow> real \<Rightarrow> real \<Rightarrow> (prng \<times> real) option" where
  "PRNG_gamma this shape scale =
     (if shape < 1
      then Option.bind (PRNG_gamma this (1 + shape) scale) (\<lambda>(this1, g).
             case PRNG_random this1 of (this2, u) \<Rightarrow> Some (this2, g * u powr (1 / shape)))
      else gamma_loop (shape - 1 / 3) (1 / sqrt (9 * (shape - 1 / 3))) scale this)"

definition PRNG_beta :: "prng \<Rightarrow> real \<Rightarrow> real \<Rightarrow> (prng \<times> (error + real)) option" where
  "PRNG_beta this alpha beta =
     (if alpha \<le> 0 \<or> beta \<le> 0 then Some (this, Inl Alpha_and_beta_must_be_positive)
      else Option.bind (PRNG_gamma this alpha 1) (\<lambda>(this1, gamma1).
           Option.bind (PRNG_gamma this1 beta 1) (\<lambda>(this2, gamma2).
             Some (this2, Inr (gamma1 / (gamma1 + gamma2))))))"

subsection \<open>Weighted selection\<close>

fun weightedPick_scan :: "('a \<times> real) list \<Rightarrow> real \<Rightarrow> 'a option" where
  "weightedPick_scan [] random = None"
| "weightedPick_scan ((item, w) # rest) random =
     (let random = random - w
      in if random \<le> 0 then Some item else weightedPick_scan rest random)"

definition PRNG_weightedPick :: "prng \<Rightarrow> 'a list \<Rightarrow> real list \<Rightarrow> prng \<times> (error + 'a option)" where
  "PRNG_weightedPick this items weights =
     (if length items \<noteq> length weights
      then (this, Inl Items_and_weights_must_have_same_length)
      else (let totalWeight = foldl (+) 0 weights
            in case PRNG_random this of (this', r) \<Rightarrow>
                 (this', Inr (case weightedPick_scan (zip items weights) (r * totalWeight) of
                                Some item \<Rightarrow> Some item
                              | None \<Rightarrow> (if items = [] then None else Some (last items))))))"

subsection \<open>Sequences of draws\<close>

datatype draw =
    D_random
  | D_randomInt
  | D_float real real
  | D_int real real
  | D_bool real
  | D_sign real
  | D_normal real real
  | D_exponential real

datatype jsval = Number real | Boolean bool | Infinity | MinusInfinity | NaN

fun number_value :: "number \<Rightarrow> jsval" where
  "number_value (Num i) = Number (real_of_int i)"
| "number_value PosInfinity = Infinity"
| "number_value NegInfinity = MinusInfinity"
| "number_value NotANumber = NaN"

fun PRNG_draw :: "prng \<Rightarrow> draw \<Rightarrow> (prng \<times> jsval) option" where
  "PRNG_draw this D_random = Some (map_prod id Number (PRNG_random this))"
| "PRNG_draw this D_randomInt =
     Some (map_prod id (\<lambda>r. Number (real_of_int (uint r))) (PRNG_randomInt this))"
| "PRNG_draw this (D_float minv maxv) = Some (map_prod id Number (PRNG_float this minv maxv))"
| "PRNG_draw this (D_int minv maxv) = Some (map_prod id number_value (PRNG_int this minv maxv))"
| "PRNG_draw this (D_bool probability) = Some (map_prod id Boolean (PRNG_bool this probability))"
| "PRNG_draw this (D_sign probability) =
     Some (map_prod id (\<lambda>i. Number (real_of_int i)) (PRNG_sign this probability))"
| "PRNG_draw this (D_normal mean stdDev) =
     map_option (map_prod id Number) (PRNG_normal this mean stdDev)"
| "PRNG_draw this (D_exponential lambda) =
     Some (map_prod id Number (PRNG_exponential this lambda))"

fun PRNG_draws :: "prng \<Rightarrow> draw list \<Rightarrow> (prng \<times> jsval list) option" where
  "PRNG_draws this [] = Some (this, [])"
| "PRNG_draws this (d # ds) =
     Option.bind (PRNG_draw this d) (\<lambda>(this', v).
       map_option (map_prod id ((#) v)) (PRNG_draws this' ds))"

subsection \<open>State management\<close>

text \<open>
  The objects returned by the six \<^verbatim>\<open>getState\<close> methods, by the set of their fields.
  Xoshiro128** and Xorshift128 return objects of the same shape \<^verbatim>\<open>{s, originalSeed}\<close>.
\<close>

datatype gen_snapshot =
    Snap_state_seed mulberry32_obj
  | Snap_s xorshift_obj
  | Snap_pcg pcg32_obj
  | Snap_sfc sfc32_obj
  | Snap_lcg lcg_obj

fun gen_getState :: "generator \<Rightarrow> gen_snapshot" where
  "gen_getState (Mulberry32 this) =
     Snap_state_seed \<lparr>mb_state = mb_state this, mb_seed = mb_seed this\<rparr>"
| "gen_getState (Xoshiro128SS this) =
     Snap_s \<lparr>xo_s = xo_s this, xo_originalSeed = xo_originalSeed this\<rparr>"
| "gen_getState (Xorshift128Plus this) =
     Snap_s \<lparr>xo_s = xo_s this, xo_originalSeed = xo_originalSeed this\<rparr>"
| "gen_getState (PCG32 this) =
     Snap_pcg \<lparr>stateHi = stateHi this, stateLo = stateLo this, incHi = incHi this,
               incLo = incLo this, pcg_originalSeed = pcg_originalSeed this,
               originalSequence = originalSequence this\<rparr>"
| "gen_getState (SFC32 this) =
     Snap_sfc \<lparr>sfc_a = sfc_a this, sfc_b = sfc_b this, sfc_c = sfc_c this,
               counter = counter this, sfc_originalSeed = sfc_originalSeed this\<rparr>"
| "gen_getState (LCG this) =
     Snap_lcg \<lparr>lcg_state = lcg_state this, lcg_seed = lcg_seed this, lcg_a = lcg_a this,
               lcg_c = lcg_c this, lcg_m = lcg_m this\<rparr>"

text \<open>
  No \<^verbatim>\<open>setState\<close> method has a check or a \<^verbatim>\<open>throw\<close> of its own: each assigns the fields
  it reads from its argument.
  \<^item> The argument may be \<^verbatim>\<open>undefined\<close> (\<open>None\<close>): reading a field of it throws a
    \<^verbatim>\<open>TypeError\<close>, except in \<^verbatim>\<open>LCG.setState\<close>, which is \<^verbatim>\<open>Object.assign(this, savedState)\<close>
    and ignores an undefined source.
  \<^item> When the argument is an object that lacks one of the fields read, the generator is
    left with \<^verbatim>\<open>undefined\<close> in a numeric field (or with an empty array), which the
    records above cannot hold: that outcome is \<open>Undefined_fields\<close>.
  \<^item> \<^verbatim>\<open>Object.assign\<close> overwrites the fields that the payload has and keeps the others.
\<close>

datatype 'a restore = Restored 'a | Undefined_fields

fun gen_setState :: "generator \<Rightarrow> gen_snapshot option \<Rightarrow> error + generator restore" where
  "gen_setState (LCG this) None = Inr (Restored (LCG this))"
| "gen_setState g None = Inl TypeError"
| "gen_setState (Mulberry32 this) (Some (Snap_state_seed saved)) =
     Inr (Restored (Mulberry32 (this\<lparr>mb_state := mb_state saved, mb_seed := mb_seed saved\<rparr>)))"
| "gen_setState (Mulberry32 this) (Some (Snap_lcg saved)) =
     Inr (Restored (Mulberry32 (this\<lparr>mb_state := lcg_state saved, mb_seed := lcg_seed saved\<rparr>)))"
| "gen_setState (Mulberry32 this) (Some _) = Inr Undefined_fields"
| "gen_setState (Xoshiro128SS this) (Some (Snap_s saved)) =
     Inr (Restored (Xoshiro128SS
            (this\<lparr>xo_s := xo_s saved, xo_originalSeed := xo_originalSeed saved\<rparr>)))"
| "gen_setState (Xoshiro128SS this) (Some _) = Inr Undefined_fields"
| "gen_setState (Xorshift128Plus this) (Some (Snap_s saved)) =
     Inr (Restored (Xorshift128Plus
            (this\<lparr>xo_s := xo_s saved, xo_originalSeed := xo_originalSeed saved\<rparr>)))"
| "gen_setState (Xorshift128Plus this) (Some _) = Inr Undefined_fields"
| "gen_setState (PCG32 this) (Some (Snap_pcg saved)) =
     Inr (Restored (PCG32 (this\<lparr>stateHi := stateHi saved, stateLo := stateLo saved,
                                  incHi := incHi saved, incLo := incLo saved,
                                  pcg_originalSeed := pcg_originalSeed saved,
                                  originalSequence := originalSequence saved\<rparr>)))"
| "gen_setState (PCG32 this) (Some _) = Inr Undefined_fields"
| "gen_setState (SFC32 this) (Some (Snap_sfc saved)) =
     Inr (Restored (SFC32 (this\<lparr>sfc_a := sfc_a saved, sfc_b := sfc_b saved,
                                  sfc_c := sfc_c saved, counter := counter saved,
                                  sfc_originalSeed := sfc_originalSeed saved\<rparr>)))"
| "gen_setState (SFC32 this) (Some _) = Inr Undefined_fields"
| "gen_setState (LCG this) (Some (Snap_lcg saved)) =
     Inr (Restored (LCG (this\<lparr>lcg_state := lcg_state saved, lcg_seed := lcg_seed saved,
                                lcg_a := lcg_a saved, lcg_c := lcg_c saved,
                                lcg_m := lcg_m saved\<rparr>)))"
| "gen_setState (LCG this) (Some (Snap_state_seed saved)) =
     Inr (Restored (LCG (this\<lparr>lcg_state := mb_state saved, lcg_seed := mb_seed saved\<rparr>)))"
| "gen_setState (LCG this) (Some (Snap_sfc saved)) =
     Inr (Restored (LCG (this\<lparr>lcg_a := sfc_a saved, lcg_c := uint (sfc_c saved)\<rparr>)))"
| "gen_setState (LCG this) (Some (Snap_s saved)) = Inr (Restored (LCG this))"
| "gen_setState (LCG this) (Some (Snap_pcg saved)) = Inr (Restored (LCG this))"

text \<open>
  The payload of the Facade's \<^verbatim>\<open>setState\<close>. The declared type is
  \<^verbatim>\<open>{algorithm: string, generatorState: any, normalCache: {spare: number | null, hasSpare: boolean}}\<close>;
  nothing checks it, so the payload itself and each of its three fields may be absent
  (\<^verbatim>\<open>undefined\<close>, \<open>None\<close>). A field that is present has its declared type, and
  \<open>generatorState\<close> is then one of the objects above.
\<close>

record normal_cache =
  spare :: "real option"
  hasSpare :: bool

record saved_state =
  algorithm :: "string option"
  generatorState :: "gen_snapshot option"
  normalCache :: "normal_cache option"

definition PRNG_getState :: "prng \<Rightarrow> saved_state" where
  "PRNG_getState this =
     \<lparr>algorithm = Some (gen_name (generator this)),
      generatorState = Some (gen_getState (generator this)),
      normalCache = Some \<lparr>spare = spareNormal this, hasSpare = hasSpareNormal this\<rparr>\<rparr>"

text \<open>
  The Facade's \<^verbatim>\<open>setState\<close>, statement by statement. The result is the Facade after the
  call and the error thrown, if any.
  \<^item> \<^verbatim>\<open>this.setSeed(0, savedState.algorithm)\<close>: a \<^verbatim>\<open>TypeError\<close> when the payload is
    undefined; an undefined \<open>algorithm\<close> is replaced by the default of \<^verbatim>\<open>setSeed\<close>, the
    name of the current generator. When \<^verbatim>\<open>setSeed\<close> throws, the Facade is unchanged.
  \<^item> \<^verbatim>\<open>this.generator.setState(savedState.generatorState)\<close>: when it throws, the Facade
    keeps the generator that \<^verbatim>\<open>setSeed\<close> has just constructed from the seed 0.
  \<^item> \<^verbatim>\<open>this._spareNormal = savedState.normalCache.spare\<close>: a \<^verbatim>\<open>TypeError\<close> when
    \<open>normalCache\<close> is undefined, after the generator has been replaced and restored.
\<close>

definition PRNG_setState :: "int \<Rightarrow> prng \<Rightarrow> saved_state option \<Rightarrow> prng restore \<times> error option" where
  "PRNG_setState now this savedState =
     (case savedState of
        None \<Rightarrow> (Restored this, Some TypeError)
      | Some savedState \<Rightarrow>
          (case PRNG_setSeed now this (Some (SeedNum 0)) (algorithm savedState) of
             (this, Some e) \<Rightarrow> (Restored this, Some e)
           | (this, None) \<Rightarrow>
               (case gen_setState (generator this) (generatorState savedState) of
                  Inl e \<Rightarrow> (Restored this, Some e)
                | Inr restored \<Rightarrow>
                    (case normalCache savedState of
                       None \<Rightarrow>
                         (case restored of
                            Undefined_fields \<Rightarrow> (Undefined_fields, Some TypeError)
                          | Restored g \<Rightarrow> (Restored (this\<lparr>generator := g\<rparr>), Some TypeError))
                     | Some cache \<Rightarrow>
                         (case restored of
                            Undefined_fields \<Rightarrow> (Undefined_fields, None)
                          | Restored g \<Rightarrow>
                              (Restored (this\<lparr>generator := g,
                                               spareNormal := spare cache,
                                               hasSpareNormal := hasSpare cache\<rparr>), None))))))"

definition PRNG_reset :: "prng \<Rightarrow> prng" where
  "PRNG_reset this =
     this\<lparr>generator := gen_reset (generator this), spareNormal := None, hasSpareNormal := False\<rparr>"

definition PRNG_clone :: "int \<Rightarrow> prng \<Rightarrow> error + prng" where
  "PRNG_clone now this =
     (case PRNG_new now (Some (SeedNum 0)) (Some (gen_name (generator this))) of
        Inl e \<Rightarrow> Inl e
      | Inr cloned \<Rightarrow>
          Inr (cloned\<lparr>generator := gen_clone (generator this),
                      spareNormal := spareNormal this,
                      hasSpareNormal := hasSpareNormal this\<rparr>))"

definition derivedSeed :: "string \<Rightarrow> u32 \<Rightarrow> string \<Rightarrow> string" where
  "derivedSeed name r label = name @ ''_'' @ String_num (uint r) @ ''_'' @ label"

definition PRNG_fork :: "int \<Rightarrow> prng \<Rightarrow> string \<Rightarrow> prng \<times> (error + prng)" where
  "PRNG_fork now this label =
     (case PRNG_randomInt this of (this', r) \<Rightarrow>
        (this', PRNG_new now (Some (SeedStr (derivedSeed (gen_name (generator this)) r label)))
                  (Some (gen_name (generator this')))))"

subsection \<open>Programs over one Facade\<close>

text \<open>
  A caller's program: draws and reseeds, in order. A \<^verbatim>\<open>setSeed\<close> that throws leaves the
  Facade as it was and the caller goes on. \<open>algorithm_keys\<close> are the \<^verbatim>\<open>case\<close> labels of
  the \<^verbatim>\<open>switch\<close>.
\<close>

definition algorithm_keys :: "string list" where
  "algorithm_keys =
     [''mulberry32'', ''mulberry'', ''xoshiro128'', ''xoshiro128**'', ''xoshiro'',
      ''xorshift128'', ''xorshift128+'', ''xorshift'', ''pcg32'', ''pcg'', ''sfc32'', ''sfc'',
      ''lcg'']"

datatype op = Draw draw | SetSeed seed "string option"

fun run_ops :: "int \<Rightarrow> prng \<Rightarrow> op list \<Rightarrow> prng option" where
  "run_ops now this [] = Some this"
| "run_ops now this (Draw d # ops) =
     Option.bind (PRNG_draw this d) (\<lambda>(this', v). run_ops now this' ops)"
| "run_ops now this (SetSeed sd alg # ops) =
     run_ops now (fst (PRNG_setSeed now this (Some sd) alg)) ops"

text \<open>The seed and the algorithm key of the last reseeding that did not throw.\<close>

fun last_seeding :: "seed \<times> string \<Rightarrow> op list \<Rightarrow> seed \<times> string" where
  "last_seeding sa [] = sa"
| "last_seeding sa (Draw d # ops) = last_seeding sa ops"
| "last_seeding (sd0, a0) (SetSeed sd alg # ops) =
     (let a = (case alg of None \<Rightarrow> a0 | Some a \<Rightarrow> a)
      in if toLowerCase a \<in> set algorithm_keys then last_seeding (sd, a) ops
         else last_seeding (sd0, a0) ops)"

definition run_program :: "int \<Rightarrow> seed option \<Rightarrow> string option \<Rightarrow> draw list \<Rightarrow> error + jsval list option" where
  "run_program now seed alg ds =
     (case PRNG_new now seed alg of
        Inl e \<Rightarrow> Inl e
      | Inr this \<Rightarrow> Inr (map_option snd (PRNG_draws this ds)))"

subsection \<open>Auxiliary notions for the statements\<close>

text \<open>
  The generator that the \<^verbatim>\<open>switch\<close> of \<^verbatim>\<open>setSeed\<close> constructs for the class of \<open>g\<close> and the
  seed \<open>sd\<close>.
\<close>

definition fresh_generator :: "generator \<Rightarrow> seed \<Rightarrow> generator" where
  "fresh_generator g sd =
     (case g of
        Mulberry32 _ \<Rightarrow> Mulberry32 (Mulberry32_new sd)
      | Xoshiro128SS _ \<Rightarrow> Xoshiro128SS (Xoshiro128SS_new sd)
      | Xorshift128Plus _ \<Rightarrow> Xorshift128Plus (Xorshift128Plus_new sd)
      | PCG32 _ \<Rightarrow> PCG32 (PCG32_new sd 1)
      | SFC32 _ \<Rightarrow> SFC32 (SFC32_new sd)
      | LCG _ \<Rightarrow> LCG (LCG_new sd 1664525 1013904223 4294967296))"


text \<open>
  The LCG divides by its field \<open>m\<close>, which the Facade sets to \<open>2^32\<close> and which only a
  hand-made payload given to \<^verbatim>\<open>setState\<close> can change. The other engines divide by the
  constant \<open>2^32\<close>.
\<close>

fun lcg_modulus_std :: "generator \<Rightarrow> bool" where
  "lcg_modulus_std (LCG this) = (lcg_m this = 4294967296)"
| "lcg_modulus_std _ = True"

subsection \<open>Shuffle\<close>

text \<open>
  A read of an array element: \<open>None\<close> is the \<^verbatim>\<open>undefined\<close> that JavaScript returns outside
  the array.
\<close>

definition array_get :: "'a list \<Rightarrow> int \<Rightarrow> 'a option" where
  "array_get xs i = (if 0 \<le> i \<and> i < int (length xs) then Some (xs ! nat i) else None)"

text \<open>
  The Fisher-Yates loop of \<^verbatim>\<open>shuffle\<close>, for \<open>i\<close> from the first argument down to 1.
  An index outside the array, or one that is not an integer, would make the array hold
  \<^verbatim>\<open>undefined\<close> (and grow): that outcome is \<open>None\<close>.
\<close>

fun shuffle_from :: "nat \<Rightarrow> prng \<Rightarrow> 'a list \<Rightarrow> (prng \<times> 'a list) option" where
  "shuffle_from 0 this array = Some (this, array)"
| "shuffle_from (Suc i) this array =
     (case PRNG_int this 0 (real (Suc i)) of
        (this', Num j) \<Rightarrow>
          if 0 \<le> j \<and> j < int (length array) \<and> Suc i < length array
          then shuffle_from i this' (array[Suc i := array ! nat j, nat j := array ! Suc i])
          else None
      | (this', _) \<Rightarrow> None)"

definition PRNG_shuffle :: "prng \<Rightarrow> 'a list \<Rightarrow> (prng \<times> 'a list) option" where
  "PRNG_shuffle this array = shuffle_from (length array - 1) this array"

section \<open>Noise fields\<close>

subsection \<open>Simplex noise\<close>

record simplexNoise =
  sn_rng :: prng
  perm :: "int list"
  permMod12 :: "int list"

text \<open>
  \<open>perm\<close> and \<open>permMod12\<close> are \<^verbatim>\<open>Uint8Array(512)\<close>: a store keeps the value modulo 256, and
  the store of \<^verbatim>\<open>undefined\<close> keeps 0.
\<close>

definition SimplexNoise_tables :: "int list \<Rightarrow> int list \<times> int list" where
  "SimplexNoise_tables p =
     (let pm = map (\<lambda>i. case array_get p (int i AND 255) of
                           Some v \<Rightarrow> v mod 256
                         | None \<Rightarrow> 0) [0..<512]
      in (pm, map (\<lambda>v. (v mod 12) mod 256) pm))"

definition SimplexNoise_new :: "int \<Rightarrow> seed option \<Rightarrow> error + simplexNoise option" where
  "SimplexNoise_new now seed =
     (case PRNG_new now seed (Some ''xoshiro128'') of
        Inl e \<Rightarrow> Inl e
      | Inr rng \<Rightarrow>
          Inr (map_option
                 (\<lambda>(rng', p). \<lparr>sn_rng = rng', perm = fst (SimplexNoise_tables p),
                                permMod12 = snd (SimplexNoise_tables p)\<rparr>)
                 (PRNG_shuffle rng (map int [0..<256]))))"

definition grad3 :: "(real \<times> real \<times> real) list" where
  "grad3 =
     [(1, 1, 0), (- 1, 1, 0), (1, - 1, 0), (- 1, - 1, 0),
      (1, 0, 1), (- 1, 0, 1), (1, 0, - 1), (- 1, 0, - 1),
      (0, 1, 1), (0, - 1, 1), (0, 1, - 1), (0, - 1, - 1)]"

fun dot2 :: "real \<times> real \<times> real \<Rightarrow> real \<Rightarrow> real \<Rightarrow> real" where
  "dot2 (g0, g1, g2) x y = g0 * x + g1 * y"

fun dot3 :: "real \<times> real \<times> real \<Rightarrow> real \<Rightarrow> real \<Rightarrow> real \<Rightarrow> real" where
  "dot3 (g0, g1, g2) x y z = g0 * x + g1 * y + g2 * z"

text \<open>\<^verbatim>\<open>permMod12[a + perm[b]]\<close> and \<^verbatim>\<open>permMod12[a + perm[b + perm[c]]]\<close>.\<close>

definition gi_2D :: "simplexNoise \<Rightarrow> int \<Rightarrow> int \<Rightarrow> int option" where
  "gi_2D this a b =
     do { pb \<leftarrow> array_get (perm this) b; array_get (permMod12 this) (a + pb) }"

definition gi_3D :: "simplexNoise \<Rightarrow> int \<Rightarrow> int \<Rightarrow> int \<Rightarrow> int option" where
  "gi_3D this a b c =
     do { pc \<leftarrow> array_get (perm this) c;
          pb \<leftarrow> array_get (perm this) (b + pc);
          array_get (permMod12 this) (a + pb) }"

text \<open>The offsets of the middle corners, chosen by comparing the unskewed distances.\<close>

definition order_2D :: "real \<Rightarrow> real \<Rightarrow> int \<times> int" where
  "order_2D x0 y0 = (if x0 > y0 then (1, 0) else (0, 1))"

definition order_3D :: "real \<Rightarrow> real \<Rightarrow> real \<Rightarrow> (int \<times> int \<times> int) \<times> (int \<times> int \<times> int)" where
  "order_3D x0 y0 z0 =
     (if x0 \<ge> y0
      then (if y0 \<ge> z0 then ((1, 0, 0), (1, 1, 0))
            else if x0 \<ge> z0 then ((1, 0, 0), (1, 0, 1))
            else ((0, 0, 1), (1, 0, 1)))
      else (if y0 < z0 then ((0, 0, 1), (0, 1, 1))
            else if x0 < z0 then ((0, 1, 0), (0, 1, 1))
            else ((0, 1, 0), (1, 1, 0))))"

text \<open>The three gradient indices of \<^verbatim>\<open>noise2D\<close> and the four of \<^verbatim>\<open>noise3D\<close>.\<close>

definition indices_2D :: "simplexNoise \<Rightarrow> int \<Rightarrow> int \<Rightarrow> int \<times> int \<Rightarrow> (int \<times> int \<times> int) option" where
  "indices_2D this i j o1 =
     (case o1 of (i1, j1) \<Rightarrow>
        (let ii = i AND 255;
             jj = j AND 255
         in do {
              gi0 \<leftarrow> gi_2D this ii jj;
              gi1 \<leftarrow> gi_2D this (ii + i1) (jj + j1);
              gi2 \<leftarrow> gi_2D this (ii + 1) (jj + 1);
              Some (gi0, gi1, gi2)
            }))"

definition indices_3D ::
  "simplexNoise \<Rightarrow> int \<Rightarrow> int \<Rightarrow> int \<Rightarrow> (int \<times> int \<times> int) \<times> (int \<times> int \<times> int)
     \<Rightarrow> (int \<times> int \<times> int \<times> int) option" where
  "indices_3D this i j k os =
     (case os of ((i1, j1, k1), (i2, j2, k2)) \<Rightarrow>
        (let ii = i AND 255;
             jj = j AND 255;
             kk = k AND 255
         in do {
              gi0 \<leftarrow> gi_3D this ii jj kk;
              gi1 \<leftarrow> gi_3D this (ii + i1) (jj + j1) (kk + k1);
              gi2 \<leftarrow> gi_3D this (ii + i2) (jj + j2) (kk + k2);
              gi3 \<leftarrow> gi_3D this (ii + 1) (jj + 1) (kk + 1);
              Some (gi0, gi1, gi2, gi3)
            }))"

text \<open>One corner's contribution: the gradient table is read only when \<open>t \<ge> 0\<close>.\<close>

definition corner_2D :: "int \<Rightarrow> real \<Rightarrow> real \<Rightarrow> real option" where
  "corner_2D gi x y =
     (let t = 0.5 - x * x - y * y
      in if t < 0 then Some 0
         else (let t = t * t in map_option (\<lambda>g. t * t * dot2 g x y) (array_get grad3 gi)))"

definition corner_3D :: "int \<Rightarrow> real \<Rightarrow> real \<Rightarrow> real \<Rightarrow> real option" where
  "corner_3D gi x y z =
     (let t = 0.6 - x * x - y * y - z * z
      in if t < 0 then Some 0
         else (let t = t * t in map_option (\<lambda>g. t * t * dot3 g x y z) (array_get grad3 gi)))"

definition SimplexNoise_noise2D :: "simplexNoise \<Rightarrow> real \<Rightarrow> real \<Rightarrow> real option" where
  "SimplexNoise_noise2D this xin yin =
     (let F2 = 0.5 * (sqrt 3 - 1);
          G2 = (3 - sqrt 3) / 6;
          s = (xin + yin) * F2;
          i = \<lfloor>xin + s\<rfloor>;
          j = \<lfloor>yin + s\<rfloor>;
          t = real_of_int (i + j) * G2;
          X0 = real_of_int i - t;
          Y0 = real_of_int j - t;
          x0 = xin - X0;
          y0 = yin - Y0
      in case order_2D x0 y0 of (i1, j1) \<Rightarrow>
           (let x1 = x0 - real_of_int i1 + G2;
                y1 = y0 - real_of_int j1 + G2;
                x2 = x0 - 1 + 2 * G2;
                y2 = y0 - 1 + 2 * G2
            in do {
                 (gi0, gi1, gi2) \<leftarrow> indices_2D this i j (i1, j1);
                 n0 \<leftarrow> corner_2D gi0 x0 y0;
                 n1 \<leftarrow> corner_2D gi1 x1 y1;
                 n2 \<leftarrow> corner_2D gi2 x2 y2;
                 Some (70 * (n0 + n1 + n2))
               }))"

definition SimplexNoise_noise3D :: "simplexNoise \<Rightarrow> real \<Rightarrow> real \<Rightarrow> real \<Rightarrow> real option" where
  "SimplexNoise_noise3D this xin yin zin =
     (let F3 = 1 / 3;
          G3 = 1 / 6;
          s = (xin + yin + zin) * F3;
          i = \<lfloor>xin + s\<rfloor>;
          j = \<lfloor>yin + s\<rfloor>;
          k = \<lfloor>zin + s\<rfloor>;
          t = real_of_int (i + j + k) * G3;
          X0 = real_of_int i - t;
          Y0 = real_of_int j - t;
          Z0 = real_of_int k - t;
          x0 = xin - X0;
          y0 = yin - Y0;
          z0 = zin - Z0
      in case order_3D x0 y0 z0 of ((i1, j1, k1), (i2, j2, k2)) \<Rightarrow>
           (let x1 = x0 - real_of_int i1 + G3;
                y1 = y0 - real_of_int j1 + G3;
                z1 = z0 - real_of_int k1 + G3;
                x2 = x0 - real_of_int i2 + 2 * G3;
                y2 = y0 - real_of_int j2 + 2 * G3;
                z2 = z0 - real_of_int k2 + 2 * G3;
                x3 = x0 - 1 + 3 * G3;
                y3 = y0 - 1 + 3 * G3;
                z3 = z0 - 1 + 3 * G3
            in do {
                 (gi0, gi1, gi2, gi3) \<leftarrow> indices_3D this i j k ((i1, j1, k1), (i2, j2, k2));
                 n0 \<leftarrow> corner_3D gi0 x0 y0 z0;
                 n1 \<leftarrow> corner_3D gi1 x1 y1 z1;
                 n2 \<leftarrow> corner_3D gi2 x2 y2 z2;
                 n3 \<leftarrow> corner_3D gi3 x3 y3 z3;
                 Some (32 * (n0 + n1 + n2 + n3))
               }))"

subsection \<open>Well-formed lookup tables\<close>

text \<open>A table of \<open>n\<close> entries, each in \<open>[0, m)\<close>.\<close>

definition table_below :: "nat \<Rightarrow> int \<Rightarrow> int list \<Rightarrow> bool" where
  "table_below n m p = (length p = n \<and> list_all (\<lambda>v. 0 \<le> v \<and> v < m) p)"

section \<open>Properties\<close>

subsection \<open>Construction does not read the clock when a seed is given\<close>

lemma select_generator_clock:
  "select_generator now1 (Some sd) key = select_generator now2 (Some sd) key"
  by (simp add: select_generator_def)

lemma PRNG_new_clock: "PRNG_new now1 (Some sd) alg = PRNG_new now2 (Some sd) alg"
  by (simp add: PRNG_new_def select_generator_clock [of now1 sd _ now2])

text \<open>
  Claim C1. Two Facades constructed independently (at clock readings \<open>now1\<close> and \<open>now2\<close>)
  from the same seed and the same algorithm key give the same outcome for every sequence
  of draw calls: the same error for an unknown key, and otherwise the same list of values
  (or both never leave a rejection loop). The clock is the only input of the constructor
  besides the seed and the key, and the draws have no input but the Facade.
\<close>

theorem two_run_determinism:
  "run_program now1 (Some seed) alg ds = run_program now2 (Some seed) alg ds"
  by (simp add: run_program_def PRNG_new_clock [of now1 seed alg now2])

subsection \<open>Saving and restoring\<close>

lemma toLowerCase_names [simp]:
  "toLowerCase ''mulberry32'' = ''mulberry32''"
  "toLowerCase ''xoshiro128**'' = ''xoshiro128**''"
  "toLowerCase ''xorshift128+'' = ''xorshift128+''"
  "toLowerCase ''pcg32'' = ''pcg32''"
  "toLowerCase ''sfc32'' = ''sfc32''"
  "toLowerCase ''lcg'' = ''lcg''"
  by (simp_all add: toLowerCase_def lower_char_def)

lemma select_generator_name:
  "select_generator now (Some sd) (gen_name g) =
     Inr (case g of
            Mulberry32 _ \<Rightarrow> Mulberry32 (Mulberry32_new sd)
          | Xoshiro128SS _ \<Rightarrow> Xoshiro128SS (Xoshiro128SS_new sd)
          | Xorshift128Plus _ \<Rightarrow> Xorshift128Plus (Xorshift128Plus_new sd)
          | PCG32 _ \<Rightarrow> PCG32 (PCG32_new sd 1)
          | SFC32 _ \<Rightarrow> SFC32 (SFC32_new sd)
          | LCG _ \<Rightarrow> LCG (LCG_new sd 1664525 1013904223 4294967296))"
  by (cases g) (simp_all add: select_generator_def)

lemma gen_setState_getState:
  "gen_name g' = gen_name g \<Longrightarrow> gen_setState g' (Some (gen_getState g)) = Inr (Restored g)"
  by (cases g; cases g') simp_all

lemma setState_getState:
  "PRNG_setState now other (Some (PRNG_getState this)) = (Restored this, None)"
proof -
  obtain g sp hs where eq: "this = \<lparr>generator = g, spareNormal = sp, hasSpareNormal = hs\<rparr>"
    by (cases this) auto
  have "gen_setState (case g of
            Mulberry32 _ \<Rightarrow> Mulberry32 (Mulberry32_new (SeedNum 0))
          | Xoshiro128SS _ \<Rightarrow> Xoshiro128SS (Xoshiro128SS_new (SeedNum 0))
          | Xorshift128Plus _ \<Rightarrow> Xorshift128Plus (Xorshift128Plus_new (SeedNum 0))
          | PCG32 _ \<Rightarrow> PCG32 (PCG32_new (SeedNum 0) 1)
          | SFC32 _ \<Rightarrow> SFC32 (SFC32_new (SeedNum 0))
          | LCG _ \<Rightarrow> LCG (LCG_new (SeedNum 0) 1664525 1013904223 4294967296))
        (Some (gen_getState g)) = Inr (Restored g)"
    by (rule gen_setState_getState) (cases g; simp)
  then show ?thesis
    by (simp add: PRNG_setState_def PRNG_getState_def PRNG_setSeed_def select_generator_name eq)
qed

text \<open>
  Claim C2. \<^verbatim>\<open>setState(getState())\<close> does not throw and gives back exactly the Facade
  that was saved: generator fields, spare normal and its flag. Hence any sequence of draws
  after the round trip (on the same Facade, or on any other Facade that is given the
  saved state) returns what it would have returned without it; this includes a
  \<^verbatim>\<open>normal()\<close> that resumes from the cached spare.
\<close>

theorem state_round_trip:
  "PRNG_setState now this (Some (PRNG_getState this)) = (Restored this, None)
   \<and> (\<exists>this'. PRNG_setState now other (Some (PRNG_getState this)) = (Restored this', None)
        \<and> PRNG_draws this' ds = PRNG_draws this ds
        \<and> spareNormal this' = spareNormal this
        \<and> hasSpareNormal this' = hasSpareNormal this)"
  by (simp add: setState_getState)

subsection \<open>Algorithm keys\<close>

lemma select_generator_throws:
  "select_generator now seed key =
     (if toLowerCase key \<in> set algorithm_keys then select_generator now seed key
      else Inl (Unknown_algorithm key))"
  by (simp add: select_generator_def algorithm_keys_def Let_def)

lemma select_generator_isl:
  "isl (select_generator now seed key) = (toLowerCase key \<notin> set algorithm_keys)"
  by (simp add: select_generator_def algorithm_keys_def Let_def)

lemma gen_name_key [simp]: "toLowerCase (gen_name g) \<in> set algorithm_keys"
  by (cases g) (simp_all add: algorithm_keys_def)

lemma gen_name_nextInt [simp]: "gen_name (fst (gen_nextInt g)) = gen_name g"
  by (cases g) (simp_all split: prod.splits)

lemma select_generator_fresh:
  "select_generator now sd (gen_name g) =
     Inr (fresh_generator g (case sd of None \<Rightarrow> SeedNum now | Some s \<Rightarrow> s))"
  by (cases g) (simp_all add: select_generator_def fresh_generator_def)

lemma select_generator_class:
  assumes "select_generator n sd a = Inr g"
  shows "select_generator n' sd' a =
           Inr (fresh_generator g (case sd' of None \<Rightarrow> SeedNum n' | Some s \<Rightarrow> s))"
proof -
  define c1 where "c1 = (toLowerCase a = ''mulberry32'' \<or> toLowerCase a = ''mulberry'')"
  define c2 where "c2 = (toLowerCase a = ''xoshiro128'' \<or> toLowerCase a = ''xoshiro128**''
                          \<or> toLowerCase a = ''xoshiro'')"
  define c3 where "c3 = (toLowerCase a = ''xorshift128'' \<or> toLowerCase a = ''xorshift128+''
                          \<or> toLowerCase a = ''xorshift'')"
  define c4 where "c4 = (toLowerCase a = ''pcg32'' \<or> toLowerCase a = ''pcg'')"
  define c5 where "c5 = (toLowerCase a = ''sfc32'' \<or> toLowerCase a = ''sfc'')"
  define c6 where "c6 = (toLowerCase a = ''lcg'')"
  have unf: "select_generator m t a =
     (if c1 then Inr (Mulberry32 (Mulberry32_new (case t of None \<Rightarrow> SeedNum m | Some s \<Rightarrow> s)))
      else if c2
        then Inr (Xoshiro128SS (Xoshiro128SS_new (case t of None \<Rightarrow> SeedNum m | Some s \<Rightarrow> s)))
      else if c3
        then Inr (Xorshift128Plus (Xorshift128Plus_new (case t of None \<Rightarrow> SeedNum m | Some s \<Rightarrow> s)))
      else if c4
        then Inr (PCG32 (PCG32_new (case t of None \<Rightarrow> SeedNum m | Some s \<Rightarrow> s) 1))
      else if c5
        then Inr (SFC32 (SFC32_new (case t of None \<Rightarrow> SeedNum m | Some s \<Rightarrow> s)))
      else if c6
        then Inr (LCG (LCG_new (case t of None \<Rightarrow> SeedNum m | Some s \<Rightarrow> s)
                         1664525 1013904223 4294967296))
      else Inl (Unknown_algorithm a))" for m t
    unfolding select_generator_def c1_def c2_def c3_def c4_def c5_def c6_def Let_def ..
  from assms show ?thesis
    unfolding unf [of n sd] unf [of n' sd']
    by (auto simp: fresh_generator_def split: if_splits)
qed

lemma select_generator_same_class:
  "select_generator n sd a = Inr g \<Longrightarrow>
     select_generator n' sd' (gen_name g) = select_generator n' sd' a"
  by (simp add: select_generator_class [of n sd a g n' sd'] select_generator_fresh)

lemma gen_name_fresh [simp]: "gen_name (fresh_generator g sd) = gen_name g"
  by (cases g) (simp_all add: fresh_generator_def)

lemma PRNG_new_name:
  "PRNG_new now (Some sd) (Some (gen_name g)) =
     Inr \<lparr>generator = fresh_generator g sd, spareNormal = None, hasSpareNormal = False\<rparr>"
  by (simp add: PRNG_new_def select_generator_fresh)

subsection \<open>Configuration errors\<close>

text \<open>
  Claim C7. The three configuration errors are thrown exactly under their conditions, and
  before the Facade is touched.
  \<^item> \<^verbatim>\<open>setSeed\<close> with a key throws \<^verbatim>\<open>Unknown algorithm\<close> and leaves the Facade as it was
    exactly when the key, lower-cased by the \<^verbatim>\<open>switch\<close>, is none of the thirteen labels
    (the six names and their aliases); with the key omitted it does not throw. The
    constructor throws under the same condition.
  \<^item> \<^verbatim>\<open>weightedPick\<close> throws, with the Facade unchanged, exactly when the two lengths
    differ.
  \<^item> \<^verbatim>\<open>beta\<close> throws, with the Facade unchanged, exactly when \<open>alpha \<le> 0\<close> or
    \<open>beta \<le> 0\<close>; no other call of \<^verbatim>\<open>beta\<close> ends in an error.
\<close>

theorem configuration_errors:
  "((PRNG_setSeed now this seed (Some key) = (this, Some (Unknown_algorithm key)))
      = (toLowerCase key \<notin> set algorithm_keys))
   \<and> ((snd (PRNG_setSeed now this seed (Some key)) = None)
      = (toLowerCase key \<in> set algorithm_keys))
   \<and> snd (PRNG_setSeed now this seed None) = None
   \<and> ((PRNG_new now seed (Some key) = Inl (Unknown_algorithm key))
      = (toLowerCase key \<notin> set algorithm_keys))
   \<and> (isl (PRNG_new now seed (Some key)) = (toLowerCase key \<notin> set algorithm_keys))
   \<and> ((PRNG_weightedPick this items weights
         = (this, Inl Items_and_weights_must_have_same_length))
      = (length items \<noteq> length weights))
   \<and> (isl (snd (PRNG_weightedPick this items weights)) = (length items \<noteq> length weights))
   \<and> ((PRNG_beta this alpha beta = Some (this, Inl Alpha_and_beta_must_be_positive))
      = (alpha \<le> 0 \<or> beta \<le> 0))
   \<and> ((\<exists>this' e. PRNG_beta this alpha beta = Some (this', Inl e))
      = (alpha \<le> 0 \<or> beta \<le> 0))"
proof (intro conjI)
  have sel: "\<And>sd k. select_generator now sd k =
     (if toLowerCase k \<in> set algorithm_keys then select_generator now sd k
      else Inl (Unknown_algorithm k))"
    by (rule select_generator_throws)
  have isl: "\<And>sd k. isl (select_generator now sd k) = (toLowerCase k \<notin> set algorithm_keys)"
    by (rule select_generator_isl)
  let ?sd = "Some (case seed of None \<Rightarrow> SeedNum now | Some s \<Rightarrow> s)"
  show "(PRNG_setSeed now this seed (Some key) = (this, Some (Unknown_algorithm key)))
     = (toLowerCase key \<notin> set algorithm_keys)"
    using isl [of seed key] sel [of seed key]
    by (cases "select_generator now seed key") (auto simp: PRNG_setSeed_def)
  show "(snd (PRNG_setSeed now this seed (Some key)) = None)
     = (toLowerCase key \<in> set algorithm_keys)"
    using isl [of seed key]
    by (cases "select_generator now seed key") (auto simp: PRNG_setSeed_def)
  show "snd (PRNG_setSeed now this seed None) = None"
    using isl [of seed "gen_name (generator this)"]
    by (cases "select_generator now seed (gen_name (generator this))")
       (auto simp: PRNG_setSeed_def)
  show "(PRNG_new now seed (Some key) = Inl (Unknown_algorithm key))
     = (toLowerCase key \<notin> set algorithm_keys)"
    using isl [of ?sd key] sel [of ?sd key]
    by (cases "select_generator now ?sd key") (auto simp: PRNG_new_def)
  show "isl (PRNG_new now seed (Some key)) = (toLowerCase key \<notin> set algorithm_keys)"
    using isl [of ?sd key]
    by (cases "select_generator now ?sd key") (auto simp: PRNG_new_def)
  show "(PRNG_weightedPick this items weights
           = (this, Inl Items_and_weights_must_have_same_length))
     = (length items \<noteq> length weights)"
    by (auto simp: PRNG_weightedPick_def Let_def split: prod.splits)
  show "isl (snd (PRNG_weightedPick this items weights)) = (length items \<noteq> length weights)"
    by (auto simp: PRNG_weightedPick_def Let_def split: prod.splits)
  show "(PRNG_beta this alpha beta = Some (this, Inl Alpha_and_beta_must_be_positive))
     = (alpha \<le> 0 \<or> beta \<le> 0)"
    by (auto simp: PRNG_beta_def split: Option.bind_splits prod.splits)
  show "(\<exists>this' e. PRNG_beta this alpha beta = Some (this', Inl e))
     = (alpha \<le> 0 \<or> beta \<le> 0)"
    by (auto simp: PRNG_beta_def split: Option.bind_splits prod.splits)
qed

subsection \<open>Fork\<close>

text \<open>
  Claim C5. \<^verbatim>\<open>fork(label)\<close> never throws. It advances the parent's generator by exactly
  one \<^verbatim>\<open>nextInt\<close> and leaves the parent's spare normal and flag as they were. The child is
  the Facade that the constructor builds, at any clock reading, from the seed string
  \<open>name_r_label\<close> (algorithm name, the drawn integer in decimal, the label) and the
  parent's algorithm name; it runs the parent's algorithm and starts with an empty
  normal cache.
\<close>

theorem fork_one_draw:
  "\<exists>child. PRNG_fork now this label
              = (this\<lparr>generator := fst (gen_nextInt (generator this))\<rparr>, Inr child)
      \<and> PRNG_new now' (Some (SeedStr (derivedSeed (gen_name (generator this))
                                        (snd (gen_nextInt (generator this))) label)))
                      (Some (gen_name (generator this))) = Inr child
      \<and> gen_name (generator child) = gen_name (generator this)
      \<and> spareNormal child = None \<and> hasSpareNormal child = False"
proof -
  obtain g r where n: "gen_nextInt (generator this) = (g, r)"
    by (cases "gen_nextInt (generator this)")
  have name: "gen_name g = gen_name (generator this)"
    using gen_name_nextInt [of "generator this"] n by simp
  have "fresh_generator g = fresh_generator (generator this)"
    using name by (cases g; cases "generator this") (simp_all add: fresh_generator_def fun_eq_iff)
  then show ?thesis
    by (simp add: PRNG_fork_def PRNG_randomInt_def n PRNG_new_name)
qed

subsection \<open>Uniform draws lie in the unit interval\<close>

lemma u32_to_unit_range: "0 \<le> u32_to_unit r \<and> u32_to_unit r < 1"
proof -
  have "uint r < 4294967296" using uint_lt2p [of r] by simp
  then have "real_of_int (uint r) < real_of_int 4294967296" by (simp only: of_int_less_iff)
  then have "real_of_int (uint r) < 4294967296" by simp
  moreover have "0 \<le> real_of_int (uint r)" by (rule of_int_nonneg) simp
  ultimately show ?thesis by (simp add: u32_to_unit_def)
qed

lemma gen_next_unit:
  "lcg_modulus_std g \<Longrightarrow> 0 \<le> snd (gen_next g) \<and> snd (gen_next g) < 1"
proof (cases g)
  case (LCG this)
  assume "lcg_modulus_std g"
  with LCG have m: "lcg_m this = 4294967296" by simp
  obtain this' r where n: "LCG_nextInt this = (this', r)" by (cases "LCG_nextInt this")
  then have m': "lcg_m this' = 4294967296"
    using m by (auto simp: LCG_nextInt_def Let_def)
  have "snd (gen_next g) = u32_to_unit r"
    using LCG n m' by (simp add: LCG_next_def u32_to_unit_def)
  then show ?thesis using u32_to_unit_range [of r] by simp
qed (simp_all add: u32_to_unit_range split: prod.splits)

lemma PRNG_random_unit:
  "lcg_modulus_std (generator this) \<Longrightarrow>
     0 \<le> snd (PRNG_random this) \<and> snd (PRNG_random this) < 1"
  using gen_next_unit [of "generator this"]
  by (auto simp: PRNG_random_def split: prod.splits)

lemma rnd53_small: "\<bar>x\<bar> < 2 ^ 53 \<Longrightarrow> rnd53 x = x"
  by (simp add: rnd53_def Let_def dbl_exp.simps [of "\<bar>x\<bar>"])

lemma dbl_small: "\<bar>x\<bar> < 2 ^ 53 \<Longrightarrow> dbl x = Num x"
  by (simp add: dbl_def rnd53_small)

lemma floor_u32_to_unit: "\<lfloor>u32_to_unit k * 4294967296\<rfloor> = uint k"
proof -
  have "u32_to_unit k * 4294967296 = real_of_int (uint k)" by (simp add: u32_to_unit_def)
  then show ?thesis by (simp only: floor_of_int)
qed

lemma floor_times_small:
  assumes "1 \<le> n" and "n \<le> 2 ^ 21"
  shows "\<exists>f. floor_times (u32_to_unit k) (Num n) = Num f \<and> 0 \<le> f \<and> f \<le> n - 1"
proof -
  have k: "0 \<le> uint k" "uint k < 4294967296" using uint_lt2p [of k] by simp_all
  have "uint k * n \<le> 4294967295 * n"
    using k assms(1) by (intro mult_right_mono) simp_all
  also have "\<dots> < 4294967296 * n" using assms(1) by simp
  finally have lt: "uint k * n < 4294967296 * n" .
  have "4294967296 * n \<le> 4294967296 * 2 ^ 21" using assms(2) by simp
  then have small: "uint k * n < 2 ^ 53" using lt by simp
  have nonneg: "0 \<le> uint k * n" using k assms(1) by simp
  then have r: "rnd53 (uint k * n) = uint k * n" using small by (intro rnd53_small) simp
  have "uint k * n div 4294967296 < n"
    using lt by (simp add: div_less_iff_less_mult)
  moreover have "0 \<le> uint k * n div 4294967296"
    using nonneg by (simp add: pos_imp_zdiv_nonneg_iff)
  ultimately show ?thesis by (simp add: floor_u32_to_unit r)
qed

lemma gen_next_u32:
  "lcg_modulus_std g \<Longrightarrow> snd (gen_next g) = u32_to_unit (snd (gen_nextInt g))"
proof (cases g)
  case (LCG this)
  assume "lcg_modulus_std g"
  with LCG have m: "lcg_m this = 4294967296" by simp
  obtain this' r where n: "LCG_nextInt this = (this', r)" by (cases "LCG_nextInt this")
  then have m': "lcg_m this' = 4294967296"
    using m by (auto simp: LCG_nextInt_def Let_def)
  show ?thesis
    using LCG n m' by (simp add: LCG_next_def u32_to_unit_def)
qed (simp_all split: prod.splits)

lemma PRNG_random_u32:
  "lcg_modulus_std (generator this) \<Longrightarrow>
     snd (PRNG_random this) = u32_to_unit (snd (gen_nextInt (generator this)))"
  using gen_next_u32 [of "generator this"]
  by (auto simp: PRNG_random_def split: prod.splits)

text \<open>
  Where the doubles are exact (a range of at most \<open>2^21\<close> integers of magnitude below
  \<open>2^52\<close>), \<^verbatim>\<open>int(min, max)\<close> is an integer between the rounded bounds.
\<close>

lemma PRNG_int_bounds:
  assumes "lcg_modulus_std (generator this)" and "\<lceil>minv\<rceil> \<le> \<lfloor>maxv\<rfloor>"
    and "\<lfloor>maxv\<rfloor> - \<lceil>minv\<rceil> < 2 ^ 21" and "\<bar>\<lceil>minv\<rceil>\<bar> < 2 ^ 52" and "\<bar>\<lfloor>maxv\<rfloor>\<bar> < 2 ^ 52"
  shows "\<exists>j. snd (PRNG_int this minv maxv) = Num j \<and> \<lceil>minv\<rceil> \<le> j \<and> j \<le> \<lfloor>maxv\<rfloor>"
proof -
  define mn where "mn = \<lceil>minv\<rceil>"
  define mx where "mx = \<lfloor>maxv\<rfloor>"
  define k where "k = snd (gen_nextInt (generator this))"
  have r: "snd (PRNG_random this) = u32_to_unit k"
    unfolding k_def using assms(1) by (rule PRNG_random_u32)
  have a: "mn \<le> mx" "mx - mn < 2 ^ 21" "\<bar>mn\<bar> < 2 ^ 52" "\<bar>mx\<bar> < 2 ^ 52"
    using assms by (simp_all add: mn_def mx_def)
  have d: "dbl (mx - mn) = Num (mx - mn)" using a by (intro dbl_small) simp
  have n: "dbl (mx - mn + 1) = Num (mx - mn + 1)" using a by (intro dbl_small) simp
  have "1 \<le> mx - mn + 1" "mx - mn + 1 \<le> 2 ^ 21" using a by simp_all
  from floor_times_small [OF this, of k] obtain f where
    f: "floor_times (u32_to_unit k) (Num (mx - mn + 1)) = Num f" "0 \<le> f" "f \<le> mx - mn + 1 - 1"
    by blast
  have "\<bar>f + mn\<bar> < 2 ^ 53" using f a by simp
  then have s: "dbl (f + mn) = Num (f + mn)" by (rule dbl_small)
  obtain this' where p: "PRNG_random this = (this', u32_to_unit k)"
    using r by (cases "PRNG_random this") simp
  have "snd (PRNG_int this minv maxv)
          = number_plus (floor_times (u32_to_unit k) (number_plus (dbl (mx - mn)) 1)) mn"
    by (simp add: PRNG_int_def Let_def p flip: mn_def mx_def)
  also have "\<dots> = Num (f + mn)"
    unfolding d number_plus.simps n f(1) s ..
  finally show ?thesis using f a unfolding mn_def mx_def by simp
qed

lemma lcg_modulus_std_fresh [simp]: "lcg_modulus_std (fresh_generator g sd)"
  by (cases g) (simp_all add: fresh_generator_def LCG_new_def)

lemma lcg_modulus_std_select:
  "select_generator now sd key = Inr g \<Longrightarrow> lcg_modulus_std g"
  using select_generator_class [of now sd key g now sd] lcg_modulus_std_fresh by (metis sum.inject(2))

lemma lcg_modulus_std_new: "PRNG_new now sd key = Inr this \<Longrightarrow> lcg_modulus_std (generator this)"
  by (auto simp: PRNG_new_def split: sum.splits dest: lcg_modulus_std_select)

lemma lcg_modulus_std_nextInt [simp]: "lcg_modulus_std (fst (gen_nextInt g)) = lcg_modulus_std g"
  by (cases g) (simp_all add: LCG_nextInt_def Let_def split: prod.splits)

lemma fst_gen_next [simp]: "fst (gen_next g) = fst (gen_nextInt g)"
  by (cases g) (simp_all add: LCG_next_def split: prod.splits)

lemma generator_random [simp]:
  "generator (fst (PRNG_random this)) = fst (gen_nextInt (generator this))"
  using fst_gen_next [of "generator this"]
  by (cases "gen_next (generator this)") (simp add: PRNG_random_def)

lemma lcg_modulus_std_reset [simp]: "lcg_modulus_std (gen_reset g) = lcg_modulus_std g"
  by (cases g) (simp_all add: LCG_reset_def)

lemma lcg_modulus_std_clone [simp]: "lcg_modulus_std (gen_clone g) = lcg_modulus_std g"
  by (cases g) (simp_all add: LCG_clone_def LCG_new_def)

lemma bounds_1023: "\<lceil>- (2 ^ 1023) :: real\<rceil> = - (2 ^ 1023)" "\<lfloor>2 ^ 1023 :: real\<rfloor> = 2 ^ 1023"
  by simp_all

lemma dbl_2_1024: "dbl (2 ^ 1023 - - (2 ^ 1023)) = PosInfinity"
  by (simp add: dbl_def)

lemma floor_times_inf: "floor_times r PosInfinity \<in> {PosInfinity, NegInfinity, NotANumber}"
  by simp

lemma PRNG_int_overflow:
  "snd (PRNG_int this (- (2 ^ 1023)) (2 ^ 1023)) = floor_times (snd (PRNG_random this)) PosInfinity"
proof -
  have "number_plus (floor_times r (number_plus (dbl (2 ^ 1023 - - (2 ^ 1023))) 1)) (- (2 ^ 1023))
          = floor_times r PosInfinity" for r
    unfolding dbl_2_1024 by (cases "floor_times r PosInfinity") (simp_all split: if_splits)
  then show ?thesis
    by (simp only: PRNG_int_def Let_def bounds_1023 split: prod.splits) simp
qed

text \<open>
  Claim C6 at bounds whose distance is not a finite double. \<open>-2^1023\<close> and \<open>2^1023\<close> are
  finite doubles and integers, so \<^verbatim>\<open>Math.ceil\<close> and \<^verbatim>\<open>Math.floor\<close> leave them as they are.
  \<^verbatim>\<open>max - min\<close> is \<open>2^1024\<close>, which overflows to \<^verbatim>\<open>Infinity\<close>, and so does
  \<^verbatim>\<open>max - min + 1\<close>. On every Facade \<^verbatim>\<open>int(-2^1023, 2^1023)\<close> is therefore an infinity (or
  \<^verbatim>\<open>NaN\<close>, when the draw is 0) and never an integer of the range. On the Facade
  \<^verbatim>\<open>new PRNG(97, 'lcg')\<close>, whose first draw is \<open>1175363148 / 2^32\<close>, it is \<^verbatim>\<open>Infinity\<close>.
\<close>

theorem int_range_overflow:
  "\<lceil>- (2 ^ 1023) :: real\<rceil> \<le> \<lfloor>2 ^ 1023 :: real\<rfloor>
   \<and> snd (PRNG_int this (- (2 ^ 1023)) (2 ^ 1023)) \<in> {PosInfinity, NegInfinity, NotANumber}
   \<and> map_sum id (\<lambda>rng. snd (PRNG_int rng (- (2 ^ 1023)) (2 ^ 1023)))
        (PRNG_new now (Some (SeedNum 97)) (Some ''lcg'')) = Inr PosInfinity"
proof (intro conjI)
  show "\<lceil>- (2 ^ 1023) :: real\<rceil> \<le> \<lfloor>2 ^ 1023 :: real\<rfloor>" by simp
  show "snd (PRNG_int this (- (2 ^ 1023)) (2 ^ 1023)) \<in> {PosInfinity, NegInfinity, NotANumber}"
    unfolding PRNG_int_overflow by (rule floor_times_inf)
  have new: "PRNG_new now (Some (SeedNum 97)) (Some ''lcg'') =
      Inr \<lparr>generator = LCG \<lparr>lcg_state = 97, lcg_seed = 97, lcg_a = 1664525, lcg_c = 1013904223,
                              lcg_m = 4294967296\<rparr>, spareNormal = None, hasSpareNormal = False\<rparr>"
    by (simp add: PRNG_new_def select_generator_def LCG_new_def numSeed_def)
  have r: "snd (PRNG_random \<lparr>generator = LCG \<lparr>lcg_state = 97, lcg_seed = 97, lcg_a = 1664525,
              lcg_c = 1013904223, lcg_m = 4294967296\<rparr>, spareNormal = None, hasSpareNormal = False\<rparr>)
           = 1175363148 / 4294967296"
    by (simp add: PRNG_random_def LCG_next_def LCG_nextInt_def Let_def rnd53_small js_rem_def)
  show "map_sum id (\<lambda>rng. snd (PRNG_int rng (- (2 ^ 1023)) (2 ^ 1023)))
        (PRNG_new now (Some (SeedNum 97)) (Some ''lcg'')) = Inr PosInfinity"
    unfolding new map_sum.simps PRNG_int_overflow r by simp
qed

subsection \<open>Reset\<close>

lemma numSeed_uint [simp]: "numSeed (SeedNum (uint w)) = w"
  by (simp add: numSeed_def)

lemma Mulberry32_reset_new:
  "Mulberry32_reset this = Mulberry32_new (SeedNum (uint (mb_seed this)))"
  by (cases this) (simp add: Mulberry32_reset_def Mulberry32_new_def)

lemma Xoshiro128SS_reset_new: "Xoshiro128SS_reset this = Xoshiro128SS_new (xo_originalSeed this)"
  by (cases this) (simp add: Xoshiro128SS_reset_def Xoshiro128SS_new_def)

lemma Xorshift128Plus_reset_new:
  "Xorshift128Plus_reset this = Xorshift128Plus_new (xo_originalSeed this)"
  by (cases this) (simp add: Xorshift128Plus_reset_def Xorshift128Plus_new_def)

lemma PCG32_reset_new:
  "PCG32_reset this = PCG32_new (pcg_originalSeed this) (originalSequence this)"
  by (cases this) (simp add: PCG32_reset_def PCG32_new_def PCG32_seed_state_def)

lemma SFC32_reset_new: "SFC32_reset this = SFC32_new (sfc_originalSeed this)"
  by (cases this) (simp add: SFC32_reset_def SFC32_new_def split: prod.splits)

lemma LCG_reset_new:
  "LCG_reset this = LCG_new (SeedNum (uint (lcg_seed this))) (lcg_a this) (lcg_c this) (lcg_m this)"
  by (cases this) (simp add: LCG_reset_def LCG_new_def)

lemma PCG32_nextInt_fields [simp]:
  "pcg_originalSeed (fst (PCG32_nextInt this)) = pcg_originalSeed this"
  "originalSequence (fst (PCG32_nextInt this)) = originalSequence this"
  "incHi (fst (PCG32_nextInt this)) = incHi this"
  "incLo (fst (PCG32_nextInt this)) = incLo this"
  by (simp_all add: PCG32_nextInt_def PCG32_add64_def PCG32_multiply_def Let_def)

lemma PCG32_new_fields [simp]:
  "pcg_originalSeed (PCG32_new sd q) = sd"
  "originalSequence (PCG32_new sd q) = q"
  by (simp_all add: PCG32_new_def PCG32_seed_state_def PCG32_add64_def Let_def)

lemma gen_reset_nextInt [simp]: "gen_reset (fst (gen_nextInt g)) = gen_reset g"
proof (cases g)
  case (PCG32 this)
  then show ?thesis by (simp add: PCG32_reset_new)
qed (simp_all add: Mulberry32_reset_new Mulberry32_nextInt_def Xoshiro128SS_reset_new
      Xoshiro128SS_nextInt_def Xorshift128Plus_reset_new Xorshift128Plus_nextInt_def
      SFC32_reset_new SFC32_nextInt_def LCG_reset_new LCG_nextInt_def Let_def split: prod.splits)

lemma gen_reset_fresh [simp]: "gen_reset (fresh_generator g sd) = fresh_generator g sd"
  by (cases g)
     (simp_all add: fresh_generator_def Mulberry32_reset_new Mulberry32_new_def
        Xoshiro128SS_reset_new Xoshiro128SS_new_def Xorshift128Plus_reset_new
        Xorshift128Plus_new_def PCG32_reset_new SFC32_reset_new SFC32_new_def
        LCG_reset_new LCG_new_def split: prod.splits)

lemma gen_name_reset [simp]: "gen_name (gen_reset g) = gen_name g"
  by (cases g) simp_all

lemma PRNG_reset_random [simp]: "PRNG_reset (fst (PRNG_random this)) = PRNG_reset this"
  by (simp add: PRNG_reset_def PRNG_random_def split: prod.splits)
     (metis fst_conv fst_gen_next gen_reset_nextInt)

lemma PRNG_reset_randomInt [simp]: "PRNG_reset (fst (PRNG_randomInt this)) = PRNG_reset this"
  by (simp add: PRNG_reset_def PRNG_randomInt_def split: prod.splits)
     (metis fst_conv gen_reset_nextInt)

lemma normal_loop_reset:
  assumes "normal_loop this = Some res"
  shows "PRNG_reset (fst res) = PRNG_reset this"
proof (rule normal_loop.raw_induct
    [where P = "\<lambda>this res. PRNG_reset (fst res) = PRNG_reset this", OF _ assms])
  fix f this res
  assume IH: "\<And>x y. f x = Some y \<Longrightarrow> PRNG_reset (fst y) = PRNG_reset x"
    and step: "(case PRNG_random this of (this1, r1) \<Rightarrow>
                 case PRNG_random this1 of (this2, r2) \<Rightarrow>
                   (let u = r1 * 2 - 1; v = r2 * 2 - 1; s = u * u + v * v
                    in if s \<ge> 1 \<or> s = 0 then f this2 else Some (this2, u, v, s))) = Some res"
  obtain this1 r1 where a: "PRNG_random this = (this1, r1)" by (cases "PRNG_random this")
  obtain this2 r2 where b: "PRNG_random this1 = (this2, r2)" by (cases "PRNG_random this1")
  have r: "PRNG_reset this2 = PRNG_reset this"
    using PRNG_reset_random [of this] PRNG_reset_random [of this1] a b by simp
  from step show "PRNG_reset (fst res) = PRNG_reset this"
    using IH [of this2 res] r by (auto simp: a b Let_def split: if_splits)
qed

lemma PRNG_reset_cache [simp]:
  "PRNG_reset (this\<lparr>spareNormal := sp, hasSpareNormal := hs\<rparr>) = PRNG_reset this"
  "PRNG_reset (this\<lparr>hasSpareNormal := hs\<rparr>) = PRNG_reset this"
  "PRNG_reset (this\<lparr>spareNormal := sp\<rparr>) = PRNG_reset this"
  by (simp_all add: PRNG_reset_def)

lemma PRNG_normal_reset:
  "PRNG_normal this mean stdDev = Some (this', x) \<Longrightarrow> PRNG_reset this' = PRNG_reset this"
proof (cases "hasSpareNormal this")
  case True
  assume "PRNG_normal this mean stdDev = Some (this', x)"
  with True show ?thesis by (auto simp: PRNG_normal_def)
next
  case False
  assume n: "PRNG_normal this mean stdDev = Some (this', x)"
  with False obtain res where l: "normal_loop this = Some res"
    by (auto simp: PRNG_normal_def split: Option.bind_splits)
  obtain t u v s where res: "res = (t, u, v, s)" by (cases res)
  from n False l res
  have "this' = t\<lparr>spareNormal := Some (v * sqrt (- 2 * ln s / s)), hasSpareNormal := True\<rparr>"
    by (simp add: PRNG_normal_def Let_def)
  then show ?thesis using normal_loop_reset [OF l] res by simp
qed

lemma PRNG_draw_reset:
  assumes "PRNG_draw this d = Some (this', v)"
  shows "PRNG_reset this' = PRNG_reset this"
proof (cases d)
  case (D_normal mean stdDev)
  with assms show ?thesis by (auto dest: PRNG_normal_reset)
next
  case D_random
  with assms show ?thesis using PRNG_reset_random [of this] by (cases "PRNG_random this") auto
next
  case D_randomInt
  with assms show ?thesis
    using PRNG_reset_randomInt [of this] by (cases "PRNG_randomInt this") auto
next
  case (D_float a b)
  with assms show ?thesis
    using PRNG_reset_random [of this]
    by (cases "PRNG_random this") (auto simp: PRNG_float_def)
next
  case (D_int a b)
  with assms show ?thesis
    using PRNG_reset_random [of this]
    by (cases "PRNG_random this") (auto simp: PRNG_int_def Let_def)
next
  case (D_bool a)
  with assms show ?thesis
    using PRNG_reset_random [of this]
    by (cases "PRNG_random this") (auto simp: PRNG_bool_def)
next
  case (D_sign a)
  with assms show ?thesis
    using PRNG_reset_random [of this]
    by (cases "PRNG_random this") (auto simp: PRNG_sign_def PRNG_bool_def)
next
  case (D_exponential a)
  with assms show ?thesis
    using PRNG_reset_random [of this]
    by (cases "PRNG_random this") (auto simp: PRNG_exponential_def)
qed

lemma select_generator_reset:
  assumes "select_generator n sd a = Inr g"
  shows "gen_reset g = g"
proof -
  have "g = fresh_generator g (case sd of None \<Rightarrow> SeedNum n | Some s \<Rightarrow> s)"
    using select_generator_class [OF assms, of n sd] assms by simp
  then show ?thesis using gen_reset_fresh by metis
qed

lemma PRNG_new_reset: "PRNG_new n sd a = Inr p \<Longrightarrow> PRNG_reset p = p"
  by (auto simp: PRNG_new_def PRNG_reset_def split: sum.splits dest: select_generator_reset)

lemma PRNG_new_Inr_iff:
  "(PRNG_new n (Some sd) (Some a) = Inr p) =
     (select_generator n (Some sd) a = Inr (generator p)
      \<and> spareNormal p = None \<and> \<not> hasSpareNormal p)"
  by (cases p) (auto simp: PRNG_new_def split: sum.splits)

lemma run_ops_reset:
  "run_ops now p ops = Some p' \<Longrightarrow> PRNG_new n (Some sd) (Some a) = Inr (PRNG_reset p) \<Longrightarrow>
     PRNG_new n (Some (fst (last_seeding (sd, a) ops))) (Some (snd (last_seeding (sd, a) ops)))
       = Inr (PRNG_reset p')"
proof (induction ops arbitrary: p sd a)
  case Nil
  then show ?case by simp
next
  case (Cons x ops)
  show ?case
  proof (cases x)
    case (Draw d)
    with Cons.prems(1) obtain p1 v where d: "PRNG_draw p d = Some (p1, v)"
      and r: "run_ops now p1 ops = Some p'"
      by (auto split: Option.bind_splits)
    have "PRNG_reset p1 = PRNG_reset p" using d by (rule PRNG_draw_reset)
    with Cons.prems(2) have "PRNG_new n (Some sd) (Some a) = Inr (PRNG_reset p1)" by simp
    from Cons.IH [OF r this] show ?thesis using Draw by simp
  next
    case (SetSeed sd' alg)
    define k where "k = (case alg of None \<Rightarrow> gen_name (generator p) | Some x \<Rightarrow> x)"
    define a' where "a' = (case alg of None \<Rightarrow> a | Some x \<Rightarrow> x)"
    have cls: "select_generator n (Some sd) a = Inr (gen_reset (generator p))"
      using Cons.prems(2) by (simp add: PRNG_new_Inr_iff PRNG_reset_def)
    have same: "select_generator m s k = select_generator m s a'" for m s
      using select_generator_same_class [OF cls, of m s]
      by (cases alg) (simp_all add: k_def a'_def)
    show ?thesis
    proof (cases "toLowerCase a' \<in> set algorithm_keys")
      case True
      then obtain g1 where g1: "select_generator now (Some sd') a' = Inr g1"
        using select_generator_isl [of now "Some sd'" a']
        by (cases "select_generator now (Some sd') a'") auto
      let ?p1 = "\<lparr>generator = g1, spareNormal = None, hasSpareNormal = False\<rparr>"
      have set: "PRNG_setSeed now p (Some sd') alg = (?p1, None)"
        using g1 same [of now "Some sd'"] by (simp add: PRNG_setSeed_def k_def)
      have r: "run_ops now ?p1 ops = Some p'"
        using Cons.prems(1) SetSeed set by simp
      have "gen_reset g1 = g1" using g1 by (rule select_generator_reset)
      then have "PRNG_reset ?p1 = ?p1" by (simp add: PRNG_reset_def)
      moreover have "select_generator n (Some sd') a' = Inr g1"
        using g1 select_generator_clock [of n sd' a' now] by simp
      ultimately have "PRNG_new n (Some sd') (Some a') = Inr (PRNG_reset ?p1)"
        by (simp add: PRNG_new_Inr_iff)
      from Cons.IH [OF r this] show ?thesis
        using SetSeed True by (simp add: a'_def Let_def)
    next
      case False
      then obtain e where e: "select_generator now (Some sd') a' = Inl e"
        using select_generator_isl [of now "Some sd'" a']
        by (cases "select_generator now (Some sd') a'") auto
      have set: "PRNG_setSeed now p (Some sd') alg = (p, Some e)"
        using e same [of now "Some sd'"] by (simp add: PRNG_setSeed_def k_def)
      have r: "run_ops now p ops = Some p'"
        using Cons.prems(1) SetSeed set by simp
      from Cons.IH [OF r Cons.prems(2)] show ?thesis
        using SetSeed False by (simp add: a'_def Let_def)
    qed
  qed
qed

text \<open>
  Claim C3, as the code has it. \<^verbatim>\<open>setSeed\<close> replaces the generator object, and the
  generator keeps only its own seed: nothing retains the seed of the construction. After
  any program of draws and reseeds that returns, \<^verbatim>\<open>reset()\<close> puts the Facade into the
  state that the constructor builds (at any clock reading) from the seed and the
  algorithm key of the last \<^verbatim>\<open>setSeed\<close> that did not throw, or of the construction when
  there was none.
\<close>

theorem reset_restores_last_seeding:
  assumes "PRNG_new now (Some sd0) (Some a0) = Inr p0" and "run_ops now p0 ops = Some p"
  shows "PRNG_new now' (Some (fst (last_seeding (sd0, a0) ops)))
           (Some (snd (last_seeding (sd0, a0) ops))) = Inr (PRNG_reset p)"
proof -
  have "PRNG_new now' (Some sd0) (Some a0) = Inr (PRNG_reset p0)"
    using assms(1) PRNG_new_reset [OF assms(1)] PRNG_new_clock [of now' sd0 "Some a0" now] by simp
  with assms(2) show ?thesis by (rule run_ops_reset)
qed

lemma stringToSeed_a: "stringToSeed ''a'' = 97"
  by (simp add: stringToSeed_def charCodeAt_def)

lemma stringToSeed_b: "stringToSeed ''b'' = 98"
  by (simp add: stringToSeed_def charCodeAt_def)

lemma PRNG_new_lcg_a:
  "PRNG_new 0 (Some (SeedStr ''a'')) (Some ''lcg'') =
     Inr \<lparr>generator = LCG \<lparr>lcg_state = 97, lcg_seed = 97, lcg_a = 1664525,
                             lcg_c = 1013904223, lcg_m = 4294967296\<rparr>,
          spareNormal = None, hasSpareNormal = False\<rparr>"
  by (simp add: PRNG_new_def select_generator_def LCG_new_def numSeed_def stringToSeed_a)

lemma PRNG_new_lcg_b:
  "PRNG_new 0 (Some (SeedStr ''b'')) (Some ''lcg'') =
     Inr \<lparr>generator = LCG \<lparr>lcg_state = 98, lcg_seed = 98, lcg_a = 1664525,
                             lcg_c = 1013904223, lcg_m = 4294967296\<rparr>,
          spareNormal = None, hasSpareNormal = False\<rparr>"
  by (simp add: PRNG_new_def select_generator_def LCG_new_def numSeed_def stringToSeed_b)

lemma setSeed_lcg_b:
  "PRNG_setSeed 0 \<lparr>generator = LCG l, spareNormal = sp, hasSpareNormal = hs\<rparr>
     (Some (SeedStr ''b'')) None =
     (\<lparr>generator = LCG \<lparr>lcg_state = 98, lcg_seed = 98, lcg_a = 1664525,
                          lcg_c = 1013904223, lcg_m = 4294967296\<rparr>,
       spareNormal = None, hasSpareNormal = False\<rparr>, None)"
  by (simp add: PRNG_setSeed_def select_generator_def LCG_new_def numSeed_def stringToSeed_b)

theorem reset_restores_last_seeding_witness:
  "PRNG_new 0 (Some (SeedStr ''a'')) (Some ''lcg'') =
     Inr \<lparr>generator = LCG \<lparr>lcg_state = 97, lcg_seed = 97, lcg_a = 1664525,
                             lcg_c = 1013904223, lcg_m = 4294967296\<rparr>,
          spareNormal = None, hasSpareNormal = False\<rparr>
   \<and> run_ops 0 \<lparr>generator = LCG \<lparr>lcg_state = 97, lcg_seed = 97, lcg_a = 1664525,
                                    lcg_c = 1013904223, lcg_m = 4294967296\<rparr>,
                 spareNormal = None, hasSpareNormal = False\<rparr>
        [Draw D_randomInt, SetSeed (SeedStr ''b'') None, Draw D_random] =
     Some \<lparr>generator = LCG \<lparr>lcg_state = 1177027673, lcg_seed = 98, lcg_a = 1664525,
                              lcg_c = 1013904223, lcg_m = 4294967296\<rparr>,
           spareNormal = None, hasSpareNormal = False\<rparr>
   \<and> PRNG_new 1 (Some (SeedStr ''b'')) (Some ''lcg'') =
     Inr (PRNG_reset \<lparr>generator = LCG \<lparr>lcg_state = 1177027673, lcg_seed = 98, lcg_a = 1664525,
                                         lcg_c = 1013904223, lcg_m = 4294967296\<rparr>,
                      spareNormal = None, hasSpareNormal = False\<rparr>)"
proof -
  let ?start = "\<lparr>generator = LCG \<lparr>lcg_state = 97, lcg_seed = 97, lcg_a = 1664525,
                                  lcg_c = 1013904223, lcg_m = 4294967296\<rparr>,
               spareNormal = None, hasSpareNormal = False\<rparr>"
  let ?final = "\<lparr>generator = LCG \<lparr>lcg_state = 1177027673, lcg_seed = 98, lcg_a = 1664525,
                                 lcg_c = 1013904223, lcg_m = 4294967296\<rparr>,
              spareNormal = None, hasSpareNormal = False\<rparr>"
  have h1: "PRNG_new 0 (Some (SeedStr ''a'')) (Some ''lcg'') = Inr ?start"
    by (rule PRNG_new_lcg_a)
  have h2: "run_ops 0 ?start [Draw D_randomInt, SetSeed (SeedStr ''b'') None, Draw D_random] = Some ?final"
    by (simp add: PRNG_randomInt_def PRNG_random_def setSeed_lcg_b LCG_next_def LCG_nextInt_def
          rnd53_def dbl_exp.simps js_rem_def Let_def)
  have ls: "last_seeding (SeedStr ''a'', ''lcg'')
              [Draw D_randomInt, SetSeed (SeedStr ''b'') None, Draw D_random]
            = (SeedStr ''b'', ''lcg'')"
    by (simp add: algorithm_keys_def Let_def)
  from reset_restores_last_seeding [OF h1 h2, of 1]
  have "PRNG_new 1 (Some (SeedStr ''b'')) (Some ''lcg'') = Inr (PRNG_reset ?final)"
    by (simp only: ls fst_conv snd_conv)
  with h1 h2 show ?thesis by blast
qed

text \<open>
  The claim as stated fails: a Facade constructed from the seed \<open>a\<close> and reseeded with
  \<open>b\<close> is reset to the initial state of \<open>b\<close> (LCG state 98), not to its state after
  construction (LCG state 97).
\<close>

theorem reset_original_seed_counterexample:
  "PRNG_new 0 (Some (SeedStr ''a'')) (Some ''lcg'') =
     Inr \<lparr>generator = LCG \<lparr>lcg_state = 97, lcg_seed = 97, lcg_a = 1664525,
                             lcg_c = 1013904223, lcg_m = 4294967296\<rparr>,
          spareNormal = None, hasSpareNormal = False\<rparr>
   \<and> PRNG_reset (fst (PRNG_setSeed 0
        \<lparr>generator = LCG \<lparr>lcg_state = 97, lcg_seed = 97, lcg_a = 1664525,
                            lcg_c = 1013904223, lcg_m = 4294967296\<rparr>,
         spareNormal = None, hasSpareNormal = False\<rparr> (Some (SeedStr ''b'')) None)) =
     \<lparr>generator = LCG \<lparr>lcg_state = 98, lcg_seed = 98, lcg_a = 1664525,
                         lcg_c = 1013904223, lcg_m = 4294967296\<rparr>,
      spareNormal = None, hasSpareNormal = False\<rparr>
   \<and> PRNG_reset (fst (PRNG_setSeed 0
        \<lparr>generator = LCG \<lparr>lcg_state = 97, lcg_seed = 97, lcg_a = 1664525,
                            lcg_c = 1013904223, lcg_m = 4294967296\<rparr>,
         spareNormal = None, hasSpareNormal = False\<rparr> (Some (SeedStr ''b'')) None)) \<noteq>
     \<lparr>generator = LCG \<lparr>lcg_state = 97, lcg_seed = 97, lcg_a = 1664525,
                         lcg_c = 1013904223, lcg_m = 4294967296\<rparr>,
      spareNormal = None, hasSpareNormal = False\<rparr>"
  by (simp add: PRNG_new_lcg_a setSeed_lcg_b PRNG_reset_def LCG_reset_def)

subsection \<open>What setState accepts\<close>









subsection \<open>Shuffling with a Facade whose draws lie in the unit interval\<close>

lemma generator_int [simp]:
  "generator (fst (PRNG_int this a b)) = fst (gen_nextInt (generator this))"
  using generator_random [of this]
  by (cases "PRNG_random this") (simp add: PRNG_int_def Let_def)

lemma shuffle_from_props:
  "lcg_modulus_std (generator this) \<Longrightarrow> i < length xs \<Longrightarrow> i < 2 ^ 21 \<Longrightarrow>
     \<exists>this' ys. shuffle_from i this xs = Some (this', ys) \<and> set ys = set xs
                 \<and> length ys = length xs"
proof (induction i arbitrary: this xs)
  case 0
  then show ?case by simp
next
  case (Suc i)
  obtain this' v where pv: "PRNG_int this 0 (real (Suc i)) = (this', v)"
    by (cases "PRNG_int this 0 (real (Suc i))")
  have fl: "\<lfloor>real (Suc i)\<rfloor> = int (Suc i)" by (metis floor_of_nat)
  have i21: "int (Suc i) < 2 ^ 21" using Suc.prems(3) by (metis of_nat_less_numeral_power_cancel_iff)
  have b: "\<lceil>0 :: real\<rceil> \<le> \<lfloor>real (Suc i)\<rfloor>" "\<lfloor>real (Suc i)\<rfloor> - \<lceil>0 :: real\<rceil> < 2 ^ 21"
    "\<bar>\<lceil>0 :: real\<rceil>\<bar> < 2 ^ 52" "\<bar>\<lfloor>real (Suc i)\<rfloor>\<bar> < 2 ^ 52"
    unfolding fl using i21 by simp_all
  from PRNG_int_bounds [OF Suc.prems(1) b] obtain j where
    pj: "PRNG_int this 0 (real (Suc i)) = (this', Num j)" and j: "0 \<le> j" "j \<le> int (Suc i)"
    using pv unfolding fl by auto
  then have jl: "nat j < length xs" using Suc.prems(2) by linarith
  have "generator this' = fst (gen_nextInt (generator this))"
    using generator_int [of this 0 "real (Suc i)"] unfolding pj by (simp only: fst_conv)
  then have m: "lcg_modulus_std (generator this')"
    using Suc.prems(1) by simp
  let ?xs = "xs[Suc i := xs ! nat j, nat j := xs ! Suc i]"
  have "i < length ?xs" "i < 2 ^ 21" using Suc.prems(2,3) by simp_all
  from Suc.IH [OF m this] obtain this'' ys where
    r: "shuffle_from i this' ?xs = Some (this'', ys)" "set ys = set ?xs" "length ys = length ?xs"
    by blast
  have "set ?xs = set xs" using Suc.prems(2) jl by (simp add: set_swap)
  with r j jl Suc.prems(2) pj show ?case by simp
qed

lemma PRNG_shuffle_props:
  assumes "lcg_modulus_std (generator this)" and "xs \<noteq> []" and "length xs \<le> 2 ^ 21"
  shows "\<exists>this' ys. PRNG_shuffle this xs = Some (this', ys) \<and> set ys = set xs
                 \<and> length ys = length xs"
proof -
  have "length xs - 1 < length xs" using assms(2) by (simp add: Suc_leI)
  moreover from this have "length xs - 1 < 2 ^ 21" using assms(3) by linarith
  ultimately show ?thesis
    unfolding PRNG_shuffle_def using assms(1) by (intro shuffle_from_props)
qed

lemma PRNG_new_xoshiro: "\<exists>rng. PRNG_new now seed (Some ''xoshiro128'') = Inr rng"
  by (simp add: PRNG_new_def select_generator_def toLowerCase_def lower_char_def)

lemma shuffled_identity:
  assumes "PRNG_new now seed (Some ''xoshiro128'') = Inr rng"
  shows "\<exists>rng' p. PRNG_shuffle rng (map int [0..<256]) = Some (rng', p) \<and> table_below 256 256 p"
proof -
  have m: "lcg_modulus_std (generator rng)" using assms by (rule lcg_modulus_std_new)
  have "map int [0..<256] \<noteq> []" "length (map int [0..<256]) \<le> 2 ^ 21" by simp_all
  from PRNG_shuffle_props [OF m this] obtain rng' p where
    p: "PRNG_shuffle rng (map int [0..<256]) = Some (rng', p)"
       "set p = set (map int [0..<256])" "length p = length (map int [0..<256])"
    by blast
  have "table_below 256 256 p"
    using p(2,3) by (auto simp: table_below_def list_all_iff)
  with p(1) show ?thesis by blast
qed

lemma array_get_table:
  assumes "table_below n m p" and "0 \<le> i" and "i < int n"
  shows "\<exists>v. array_get p i = Some v \<and> 0 \<le> v \<and> v < m"
proof -
  have "nat i < length p" using assms by (simp add: table_below_def)
  then have "p ! nat i \<in> set p" by simp
  then show ?thesis using assms by (auto simp: array_get_def table_below_def list_all_iff)
qed

lemma and_255_range: "0 \<le> (x :: int) AND 255 \<and> x AND 255 \<le> 255"
  by simp

subsection \<open>Simplex noise reads its tables in bounds\<close>

lemma SimplexNoise_tables_ok:
  assumes "table_below 256 256 p"
  shows "table_below 512 256 (fst (SimplexNoise_tables p))
         \<and> table_below 512 12 (snd (SimplexNoise_tables p))"
proof -
  have entry: "0 \<le> (case array_get p (int i AND 255) of Some v \<Rightarrow> v mod 256 | None \<Rightarrow> 0)
        \<and> (case array_get p (int i AND 255) of Some v \<Rightarrow> v mod 256 | None \<Rightarrow> 0) < 256" for i
    by (cases "array_get p (int i AND 255)") simp_all
  have m12: "0 \<le> (v mod 12) mod 256 \<and> (v mod 12) mod 256 < 12" for v :: int
  proof -
    have "0 \<le> v mod 12" "v mod 12 < 12" by simp_all
    then show ?thesis by simp
  qed
  show ?thesis
    using entry m12
    by (simp add: SimplexNoise_tables_def table_below_def Let_def list_all_iff)
qed

lemma SimplexNoise_new_tables:
  "\<exists>sn. SimplexNoise_new now seed = Inr (Some sn)
     \<and> table_below 512 256 (perm sn) \<and> table_below 512 12 (permMod12 sn)"
proof -
  obtain rng where rng: "PRNG_new now seed (Some ''xoshiro128'') = Inr rng"
    using PRNG_new_xoshiro by blast
  from shuffled_identity [OF rng] obtain rng' p where
    p: "PRNG_shuffle rng (map int [0..<256]) = Some (rng', p)" "table_below 256 256 p" by blast
  show ?thesis
    using SimplexNoise_tables_ok [OF p(2)]
    by (simp add: SimplexNoise_new_def rng p(1))
qed

lemma gi_2D_range:
  assumes "table_below 512 256 (perm this)" and "table_below 512 12 (permMod12 this)"
    and "0 \<le> a" "a \<le> 256" "0 \<le> b" "b \<le> 256"
  shows "\<exists>g. gi_2D this a b = Some g \<and> 0 \<le> g \<and> g < 12"
proof -
  have "b < int 512" using assms by simp
  from array_get_table [OF assms(1) assms(5) this] obtain pb where
    pb: "array_get (perm this) b = Some pb" "0 \<le> pb" "pb < 256" by auto
  have "0 \<le> a + pb" "a + pb < int 512" using assms pb by simp_all
  from array_get_table [OF assms(2) this] obtain g where
    "array_get (permMod12 this) (a + pb) = Some g" "0 \<le> g" "g < 12" by auto
  then show ?thesis using pb by (simp add: gi_2D_def)
qed

lemma gi_3D_range:
  assumes "table_below 512 256 (perm this)" and "table_below 512 12 (permMod12 this)"
    and "0 \<le> a" "a \<le> 256" "0 \<le> b" "b \<le> 256" "0 \<le> c" "c \<le> 256"
  shows "\<exists>g. gi_3D this a b c = Some g \<and> 0 \<le> g \<and> g < 12"
proof -
  have "c < int 512" using assms by simp
  from array_get_table [OF assms(1) assms(7) this] obtain pc where
    pc: "array_get (perm this) c = Some pc" "0 \<le> pc" "pc < 256" by auto
  have "0 \<le> b + pc" "b + pc < int 512" using assms pc by simp_all
  from array_get_table [OF assms(1) this] obtain pb where
    pb: "array_get (perm this) (b + pc) = Some pb" "0 \<le> pb" "pb < 256" by auto
  have "0 \<le> a + pb" "a + pb < int 512" using assms pb by simp_all
  from array_get_table [OF assms(2) this] obtain g where
    "array_get (permMod12 this) (a + pb) = Some g" "0 \<le> g" "g < 12" by auto
  then show ?thesis using pc pb by (simp add: gi_3D_def)
qed

lemma order_2D_cases: "order_2D x0 y0 = (1, 0) \<or> order_2D x0 y0 = (0, 1)"
  by (simp add: order_2D_def)

lemma order_3D_range:
  "order_3D x0 y0 z0 = ((i1, j1, k1), (i2, j2, k2)) \<Longrightarrow>
     0 \<le> i1 \<and> i1 \<le> 1 \<and> 0 \<le> j1 \<and> j1 \<le> 1 \<and> 0 \<le> k1 \<and> k1 \<le> 1
     \<and> 0 \<le> i2 \<and> i2 \<le> 1 \<and> 0 \<le> j2 \<and> j2 \<le> 1 \<and> 0 \<le> k2 \<and> k2 \<le> 1"
  by (auto simp: order_3D_def split: if_splits)

lemma indices_2D_range:
  assumes "table_below 512 256 (perm this)" and "table_below 512 12 (permMod12 this)"
  shows "\<exists>g0 g1 g2. indices_2D this i j (order_2D x0 y0) = Some (g0, g1, g2)
           \<and> 0 \<le> g0 \<and> g0 < 12 \<and> 0 \<le> g1 \<and> g1 < 12 \<and> 0 \<le> g2 \<and> g2 < 12"
proof -
  define ii where "ii = i AND 255"
  define jj where "jj = j AND 255"
  obtain i1 j1 where o: "order_2D x0 y0 = (i1, j1)" by (cases "order_2D x0 y0")
  have o1: "0 \<le> i1 \<and> i1 \<le> 1 \<and> 0 \<le> j1 \<and> j1 \<le> 1"
    using order_2D_cases [of x0 y0] o by auto
  have r: "0 \<le> ii" "ii \<le> 255" "0 \<le> jj" "jj \<le> 255"
    using and_255_range [of i] and_255_range [of j] by (simp_all add: ii_def jj_def)
  note G = gi_2D_range [OF assms]
  obtain g0 where g0: "gi_2D this ii jj = Some g0" "0 \<le> g0" "g0 < 12"
    using G [of ii jj] r by auto
  obtain g1 where g1: "gi_2D this (ii + i1) (jj + j1) = Some g1" "0 \<le> g1" "g1 < 12"
    using G [of "ii + i1" "jj + j1"] r o1 by auto
  obtain g2 where g2: "gi_2D this (ii + 1) (jj + 1) = Some g2" "0 \<le> g2" "g2 < 12"
    using G [of "ii + 1" "jj + 1"] r by auto
  have "indices_2D this i j (order_2D x0 y0) = Some (g0, g1, g2)"
    by (simp add: indices_2D_def o Let_def g0 g1 g2 flip: ii_def jj_def)
  then show ?thesis using g0 g1 g2 by blast
qed

lemma indices_3D_range:
  assumes "table_below 512 256 (perm this)" and "table_below 512 12 (permMod12 this)"
  shows "\<exists>g0 g1 g2 g3. indices_3D this i j k (order_3D x0 y0 z0) = Some (g0, g1, g2, g3)
           \<and> 0 \<le> g0 \<and> g0 < 12 \<and> 0 \<le> g1 \<and> g1 < 12 \<and> 0 \<le> g2 \<and> g2 < 12
           \<and> 0 \<le> g3 \<and> g3 < 12"
proof -
  define ii where "ii = i AND 255"
  define jj where "jj = j AND 255"
  define kk where "kk = k AND 255"
  obtain i1 j1 k1 i2 j2 k2 where o: "order_3D x0 y0 z0 = ((i1, j1, k1), (i2, j2, k2))"
    by (cases "order_3D x0 y0 z0") auto
  note o1 = order_3D_range [OF o]
  have r: "0 \<le> ii" "ii \<le> 255" "0 \<le> jj" "jj \<le> 255" "0 \<le> kk" "kk \<le> 255"
    using and_255_range [of i] and_255_range [of j] and_255_range [of k]
    by (simp_all add: ii_def jj_def kk_def)
  note G = gi_3D_range [OF assms]
  obtain g0 where g0: "gi_3D this ii jj kk = Some g0" "0 \<le> g0" "g0 < 12"
    using G [of ii jj kk] r by auto
  obtain g1 where g1: "gi_3D this (ii + i1) (jj + j1) (kk + k1) = Some g1" "0 \<le> g1" "g1 < 12"
    using G [of "ii + i1" "jj + j1" "kk + k1"] r o1 by auto
  obtain g2 where g2: "gi_3D this (ii + i2) (jj + j2) (kk + k2) = Some g2" "0 \<le> g2" "g2 < 12"
    using G [of "ii + i2" "jj + j2" "kk + k2"] r o1 by auto
  obtain g3 where g3: "gi_3D this (ii + 1) (jj + 1) (kk + 1) = Some g3" "0 \<le> g3" "g3 < 12"
    using G [of "ii + 1" "jj + 1" "kk + 1"] r by auto
  have "indices_3D this i j k (order_3D x0 y0 z0) = Some (g0, g1, g2, g3)"
    by (simp add: indices_3D_def o Let_def g0 g1 g2 g3 flip: ii_def jj_def kk_def)
  then show ?thesis using g0 g1 g2 g3 by blast
qed

lemma length_grad3: "length grad3 = 12"
  by (simp add: grad3_def)

lemma grad3_get:
  assumes "0 \<le> g" and "g < 12"
  shows "\<exists>v. array_get grad3 g = Some v"
proof -
  have "array_get grad3 g = Some (grad3 ! nat g)"
    using assms by (simp add: array_get_def length_grad3)
  then show ?thesis ..
qed

lemma corner_2D_defined: "0 \<le> g \<Longrightarrow> g < 12 \<Longrightarrow> \<exists>n. corner_2D g x y = Some n"
  using grad3_get [of g] by (auto simp: corner_2D_def Let_def)

lemma corner_3D_defined: "0 \<le> g \<Longrightarrow> g < 12 \<Longrightarrow> \<exists>n. corner_3D g x y z = Some n"
  using grad3_get [of g] by (auto simp: corner_3D_def Let_def)

lemma SimplexNoise_noise2D_defined:
  assumes "table_below 512 256 (perm this)" and "table_below 512 12 (permMod12 this)"
  shows "\<exists>v. SimplexNoise_noise2D this xin yin = Some v"
proof -
  define s where "s = (xin + yin) * (0.5 * (sqrt 3 - 1))"
  define i where "i = \<lfloor>xin + s\<rfloor>"
  define j where "j = \<lfloor>yin + s\<rfloor>"
  define t where "t = real_of_int (i + j) * ((3 - sqrt 3) / 6)"
  define x0 where "x0 = xin - (real_of_int i - t)"
  define y0 where "y0 = yin - (real_of_int j - t)"
  obtain i1 j1 where o: "order_2D x0 y0 = (i1, j1)" by (cases "order_2D x0 y0")
  from indices_2D_range [OF assms, of i j x0 y0] obtain g0 g1 g2 where
    g: "indices_2D this i j (i1, j1) = Some (g0, g1, g2)"
       "0 \<le> g0" "g0 < 12" "0 \<le> g1" "g1 < 12" "0 \<le> g2" "g2 < 12"
    unfolding o by blast
  define x1 where "x1 = x0 - real_of_int i1 + (3 - sqrt 3) / 6"
  define y1 where "y1 = y0 - real_of_int j1 + (3 - sqrt 3) / 6"
  define x2 where "x2 = x0 - 1 + 2 * ((3 - sqrt 3) / 6)"
  define y2 where "y2 = y0 - 1 + 2 * ((3 - sqrt 3) / 6)"
  obtain n0 where n0: "corner_2D g0 x0 y0 = Some n0" using corner_2D_defined g by blast
  obtain n1 where n1: "corner_2D g1 x1 y1 = Some n1" using corner_2D_defined g by blast
  obtain n2 where n2: "corner_2D g2 x2 y2 = Some n2" using corner_2D_defined g by blast
  have "SimplexNoise_noise2D this xin yin = Some (70 * (n0 + n1 + n2))"
    unfolding SimplexNoise_noise2D_def Let_def
    unfolding s_def [symmetric] i_def [symmetric] j_def [symmetric] t_def [symmetric]
      x0_def [symmetric] y0_def [symmetric] o prod.case
    unfolding x1_def [symmetric] y1_def [symmetric] x2_def [symmetric] y2_def [symmetric]
    by (simp add: g(1) n0 n1 n2)
  then show ?thesis by blast
qed

lemma SimplexNoise_noise3D_defined:
  assumes "table_below 512 256 (perm this)" and "table_below 512 12 (permMod12 this)"
  shows "\<exists>v. SimplexNoise_noise3D this xin yin zin = Some v"
proof -
  define s where "s = (xin + yin + zin) * (1 / 3)"
  define i where "i = \<lfloor>xin + s\<rfloor>"
  define j where "j = \<lfloor>yin + s\<rfloor>"
  define k where "k = \<lfloor>zin + s\<rfloor>"
  define t where "t = real_of_int (i + j + k) * (1 / 6)"
  define x0 where "x0 = xin - (real_of_int i - t)"
  define y0 where "y0 = yin - (real_of_int j - t)"
  define z0 where "z0 = zin - (real_of_int k - t)"
  obtain i1 j1 k1 i2 j2 k2 where o: "order_3D x0 y0 z0 = ((i1, j1, k1), (i2, j2, k2))"
    by (cases "order_3D x0 y0 z0") auto
  from indices_3D_range [OF assms, of i j k x0 y0 z0] obtain g0 g1 g2 g3 where
    g: "indices_3D this i j k ((i1, j1, k1), (i2, j2, k2)) = Some (g0, g1, g2, g3)"
       "0 \<le> g0" "g0 < 12" "0 \<le> g1" "g1 < 12" "0 \<le> g2" "g2 < 12" "0 \<le> g3" "g3 < 12"
    unfolding o by blast
  define x1 where "x1 = x0 - real_of_int i1 + 1 / 6"
  define y1 where "y1 = y0 - real_of_int j1 + 1 / 6"
  define z1 where "z1 = z0 - real_of_int k1 + 1 / 6"
  define x2 where "x2 = x0 - real_of_int i2 + 2 * (1 / 6)"
  define y2 where "y2 = y0 - real_of_int j2 + 2 * (1 / 6)"
  define z2 where "z2 = z0 - real_of_int k2 + 2 * (1 / 6)"
  define x3 where "x3 = x0 - 1 + 3 * (1 / 6)"
  define y3 where "y3 = y0 - 1 + 3 * (1 / 6)"
  define z3 where "z3 = z0 - 1 + 3 * (1 / 6)"
  obtain n0 where n0: "corner_3D g0 x0 y0 z0 = Some n0" using corner_3D_defined g by blast
  obtain n1 where n1: "corner_3D g1 x1 y1 z1 = Some n1" using corner_3D_defined g by blast
  obtain n2 where n2: "corner_3D g2 x2 y2 z2 = Some n2" using corner_3D_defined g by blast
  obtain n3 where n3: "corner_3D g3 x3 y3 z3 = Some n3" using corner_3D_defined g by blast
  have "SimplexNoise_noise3D this xin yin zin = Some (32 * (n0 + n1 + n2 + n3))"
    unfolding SimplexNoise_noise3D_def Let_def
    unfolding s_def [symmetric] i_def [symmetric] j_def [symmetric] k_def [symmetric]
      t_def [symmetric] x0_def [symmetric] y0_def [symmetric] z0_def [symmetric] o prod.case
    unfolding x1_def [symmetric] y1_def [symmetric] z1_def [symmetric] x2_def [symmetric]
      y2_def [symmetric] z2_def [symmetric] x3_def [symmetric] y3_def [symmetric]
      z3_def [symmetric]
    by (simp add: g(1) n0 n1 n2 n3)
  then show ?thesis by blast
qed

text \<open>
  Claim C10. Every simplex-noise instance that the constructor builds (it never throws, and
  its shuffle never leaves the array) has tables \<open>perm\<close> and \<open>permMod12\<close> of 512 entries.
  For all lattice cells \<open>i, j, k\<close> and all corner orders that the code can choose, the
  reads \<^verbatim>\<open>permMod12[ii + .. + perm[jj + .. + perm[kk + ..]]]\<close> are inside the tables (a read
  outside would give \<open>None\<close>) and give gradient indices in \<open>[0, 11]\<close>; hence \<^verbatim>\<open>noise2D\<close>
  and \<^verbatim>\<open>noise3D\<close> perform no read outside \<open>perm\<close>, \<open>permMod12\<close> or the twelve gradients,
  at all coordinates.
\<close>

theorem simplex_lookups_in_bounds:
  "\<exists>sn. SimplexNoise_new now seed = Inr (Some sn)
     \<and> length (perm sn) = 512 \<and> length (permMod12 sn) = 512 \<and> length grad3 = 12
     \<and> (\<forall>i j x0 y0. \<exists>g0 g1 g2.
           indices_2D sn i j (order_2D x0 y0) = Some (g0, g1, g2)
           \<and> 0 \<le> g0 \<and> g0 < 12 \<and> 0 \<le> g1 \<and> g1 < 12 \<and> 0 \<le> g2 \<and> g2 < 12)
     \<and> (\<forall>i j k x0 y0 z0. \<exists>g0 g1 g2 g3.
           indices_3D sn i j k (order_3D x0 y0 z0) = Some (g0, g1, g2, g3)
           \<and> 0 \<le> g0 \<and> g0 < 12 \<and> 0 \<le> g1 \<and> g1 < 12 \<and> 0 \<le> g2 \<and> g2 < 12
           \<and> 0 \<le> g3 \<and> g3 < 12)
     \<and> (\<forall>xin yin. \<exists>v. SimplexNoise_noise2D sn xin yin = Some v)
     \<and> (\<forall>xin yin zin. \<exists>v. SimplexNoise_noise3D sn xin yin zin = Some v)"
proof -
  obtain sn where sn: "SimplexNoise_new now seed = Inr (Some sn)"
    and t: "table_below 512 256 (perm sn)" "table_below 512 12 (permMod12 sn)"
    using SimplexNoise_new_tables by blast
  have len: "length (perm sn) = 512" "length (permMod12 sn) = 512" "length grad3 = 12"
    using t by (simp_all add: table_below_def length_grad3)
  show ?thesis
    using sn len indices_2D_range [OF t] indices_3D_range [OF t]
      SimplexNoise_noise2D_defined [OF t] SimplexNoise_noise3D_defined [OF t]
    by blast
qed

end
